theory Spec2Isabelle
  imports Main "HOL-Library.Sublist"
begin

section \<open>Values exchanged with the providers\<close>

text \<open>
  What \<^verbatim>\<open>response.json()\<close> returns: a parsed JSON value. Python's \<^verbatim>\<open>None\<close> is
  \<open>JNull\<close>; a dict is an association list read with \<open>map_of\<close>.
\<close>

datatype json =
    JNull
  | JBool bool
  | JNum int
  | JStr string
  | JArr "json list"
  | JObj "(string \<times> json) list"

text \<open>The exceptions the program can raise, each with what its message carries.\<close>

datatype error =
    ValueError string
  | HTTPError nat
  | ConnectionError
  | JSONDecodeError
  | AttributeError
  | IndexError
  | UnidentifiedImageError
  | FileNotFoundError string
  | OSError string
  | NotImplementedError string
  | Base64Error
  | OpenAIError string

text \<open>
  A decoded image (PIL): colour mode, size, and where its pixels come from. The pixel
  content is symbolic: it records the operations that produced it.
\<close>

datatype pixels =
    Source nat
  | OnWhite pixels bool
  | Converted pixels
  | Resampled pixels nat nat

record image =
  mode :: string
  width :: nat
  height :: nat
  pixels :: pixels

record response =
  status_code :: nat
  body_text :: string
  json_body :: "json option"
  content :: string

text \<open>
  What the program does to the outside, in order: sleeping, HTTP requests through
  \<^verbatim>\<open>requests\<close>, lines printed, calls of the primary provider's client, an image saved
  to a path in a format.
\<close>

datatype event =
    Sleep nat
  | HttpPost string json
  | HttpGet string
  | Print string
  | ApiCall string
  | SaveImage image string string

text \<open>
  The outside of the secondary provider's adapter. \<open>status_responses k\<close> is what the
  \<open>k\<close>-th GET of the status endpoint receives (\<open>Inl\<close>: the request itself raised);
  \<open>py_repr\<close> is Python's \<^verbatim>\<open>repr\<close>, \<open>image_open\<close> is \<^verbatim>\<open>Image.open\<close> on bytes, the
  duration of \<open>Sleep\<close> is in milliseconds.
\<close>

record provider =
  bfl_key_env :: "string option"
  http_post :: "string \<Rightarrow> (string \<times> string) list \<Rightarrow> json \<Rightarrow> error + response"
  status_responses :: "nat \<Rightarrow> error + response"
  http_fetch :: "string \<Rightarrow> error + response"
  image_open :: "string \<Rightarrow> image option"
  py_repr :: "json \<Rightarrow> string"
  jpeg_encode :: "image \<Rightarrow> nat \<Rightarrow> error + string"
  b64encode :: "string \<Rightarrow> string"
  thumbnail_size :: "nat \<times> nat \<Rightarrow> nat \<times> nat \<Rightarrow> nat \<times> nat"

subsection \<open>Python's built-ins on these values\<close>

fun truthy :: "json \<Rightarrow> bool" where
  "truthy JNull = False"
| "truthy (JBool b) = b"
| "truthy (JNum n) = (n \<noteq> 0)"
| "truthy (JStr s) = (s \<noteq> [])"
| "truthy (JArr xs) = (xs \<noteq> [])"
| "truthy (JObj kvs) = (kvs \<noteq> [])"

text \<open>\<^verbatim>\<open>d.get(k, default)\<close>; on anything that is not a dict the attribute is missing.\<close>

fun dict_get :: "json \<Rightarrow> string \<Rightarrow> json \<Rightarrow> error + json" where
  "dict_get (JObj kvs) k d = Inr (case map_of kvs k of None \<Rightarrow> d | Some v \<Rightarrow> v)"
| "dict_get _ k d = Inl AttributeError"

text \<open>\<^verbatim>\<open>str(v)\<close>, as an f-string applies it: a string is itself, the rest is its repr.\<close>

fun py_str :: "provider \<Rightarrow> json \<Rightarrow> string" where
  "py_str w (JStr s) = s"
| "py_str w v = py_repr w v"

text \<open>\<^verbatim>\<open>a or b\<close> on optional strings.\<close>

fun str_or :: "string option \<Rightarrow> string option \<Rightarrow> string option" where
  "str_or (Some s) b = (if s \<noteq> [] then Some s else b)"
| "str_or None b = b"

fun str_truthy :: "string option \<Rightarrow> bool" where
  "str_truthy (Some s) = (s \<noteq> [])"
| "str_truthy None = False"

text \<open>\<^verbatim>\<open>raise_for_status()\<close> raises on the 4xx and 5xx codes.\<close>

definition raise_for_status :: "response \<Rightarrow> error option" where
  "raise_for_status r =
     (if 400 \<le> status_code r \<and> status_code r < 600 then Some (HTTPError (status_code r))
      else None)"

section \<open>The asynchronous job poller\<close>

definition load_bfl_api_key :: "provider \<Rightarrow> string option" where
  "load_bfl_api_key w = bfl_key_env w"

definition nonterminal_statuses :: "json list" where
  "nonterminal_statuses = [JStr ''Processing'', JStr ''Queued'', JStr ''Pending'']"

definition failure_message :: "provider \<Rightarrow> json \<Rightarrow> json \<Rightarrow> string" where
  "failure_message w status result_data =
     ''Generation failed with status: '' @ py_str w status @
     ''. Full response: '' @ py_str w result_data"

text \<open>
  The \<^verbatim>\<open>Ready\<close> branch of the loop body (lines 390-398 and 482-490): read the result
  URL, download it, decode it. The log \<open>tr\<close> is the events so far.
\<close>

definition fetch_result :: "provider \<Rightarrow> json \<Rightarrow> event list \<Rightarrow> (error + image) \<times> event list" where
  "fetch_result w result_data tr =
     (case dict_get result_data ''result'' (JObj []) of
        Inl e \<Rightarrow> (Inl e, tr)
      | Inr res \<Rightarrow>
          (case dict_get res ''sample'' JNull of
             Inl e \<Rightarrow> (Inl e, tr)
           | Inr image_url \<Rightarrow>
               if \<not> truthy image_url then (Inl (ValueError ''No image URL in result''), tr)
               else
                 (let tr' = tr @ [HttpGet (py_str w image_url)] in
                  case http_fetch w (py_str w image_url) of
                    Inl e \<Rightarrow> (Inl e, tr')
                  | Inr img_response \<Rightarrow>
                      (case raise_for_status img_response of
                         Some e \<Rightarrow> (Inl e, tr')
                       | None \<Rightarrow>
                           (case image_open w (content img_response) of
                              None \<Rightarrow> (Inl UnidentifiedImageError, tr')
                            | Some img \<Rightarrow> (Inr img, tr'))))))"

text \<open>
  One pass through the body of \<^verbatim>\<open>while True\<close> (lines 382-401 and 474-493), from the
  state (number of polls made, log). \<open>Inl\<close>: the loop goes round again; \<open>Inr\<close>: the
  function returns an image or raises.
\<close>

definition poll_iteration ::
  "provider \<Rightarrow> string \<Rightarrow> nat \<times> event list \<Rightarrow>
     (nat \<times> event list) + ((error + image) \<times> event list)" where
  "poll_iteration w result_url st =
     (let k = fst st;
          tr = snd st @ [Sleep 1500, HttpGet result_url] in
      case status_responses w k of
        Inl e \<Rightarrow> Inr (Inl e, tr)
      | Inr result_response \<Rightarrow>
          (case raise_for_status result_response of
             Some e \<Rightarrow> Inr (Inl e, tr)
           | None \<Rightarrow>
               (case json_body result_response of
                  None \<Rightarrow> Inr (Inl JSONDecodeError, tr)
                | Some result_data \<Rightarrow>
                    (case dict_get result_data ''status'' JNull of
                       Inl e \<Rightarrow> Inr (Inl e, tr)
                     | Inr status \<Rightarrow>
                         if status = JStr ''Ready'' then Inr (fetch_result w result_data tr)
                         else if status \<notin> set nonterminal_statuses
                         then Inr (Inl (ValueError (failure_message w status result_data)), tr)
                         else Inl (Suc k, tr)))))"

text \<open>The loop itself. It has no bound: \<open>None\<close> is the run that never returns.\<close>

partial_function (option) poll_loop ::
  "provider \<Rightarrow> string \<Rightarrow> nat \<times> event list \<Rightarrow> ((error + image) \<times> event list) option" where
  "poll_loop w result_url st =
     (case poll_iteration w result_url st of
        Inl st' \<Rightarrow> poll_loop w result_url st'
      | Inr r \<Rightarrow> Some r)"

text \<open>The first \<open>n\<close> passes of the same loop: where it stands, or what it returned.\<close>

primrec poll_passes ::
  "nat \<Rightarrow> provider \<Rightarrow> string \<Rightarrow> nat \<times> event list \<Rightarrow>
     (nat \<times> event list) + ((error + image) \<times> event list)" where
  "poll_passes 0 w result_url st = Inl st"
| "poll_passes (Suc n) w result_url st =
     (case poll_iteration w result_url st of
        Inl st' \<Rightarrow> poll_passes n w result_url st'
      | Inr r \<Rightarrow> Inr r)"


subsection \<open>Decimal numerals, as \<^verbatim>\<open>str\<close> prints a non-negative integer\<close>

definition digit_char :: "nat \<Rightarrow> char" where
  "digit_char d = ''0123456789'' ! d"

fun show_nat :: "nat \<Rightarrow> string" where
  "show_nat n = (if n < 10 then [digit_char n] else show_nat (n div 10) @ [digit_char (n mod 10)])"

declare show_nat.simps [simp del]

definition show_size :: "image \<Rightarrow> string" where
  "show_size img = ''('' @ show_nat (width img) @ '', '' @ show_nat (height img) @ '')''"

subsection \<open>Submitting a job\<close>

definition request_headers :: "string \<Rightarrow> (string \<times> string) list" where
  "request_headers bfl_api_key =
     [(''accept'', ''application/json''), (''x-key'', bfl_api_key),
      (''Content-Type'', ''application/json'')]"

definition no_key_message :: string where
  "no_key_message =
     ''No BFL API key found. Set BFL_API_KEY environment variable or use --bfl-api-key''"

text \<open>
  The POST and the reading of the job identifier (lines 366-380 and 458-472, the same
  text in both functions). On success the result is the status URL.
\<close>

definition submit_job ::
  "provider \<Rightarrow> string \<Rightarrow> (string \<times> string) list \<Rightarrow> json \<Rightarrow> event list \<Rightarrow>
     (error + string) \<times> event list" where
  "submit_job w url headers data tr =
     (let tr1 = tr @ [HttpPost url data] in
      case http_post w url headers data of
        Inl e \<Rightarrow> (Inl e, tr1)
      | Inr response \<Rightarrow>
          (let tr2 = (if status_code response \<noteq> 200
                      then tr1 @ [Print (''Error response: '' @ body_text response)]
                      else tr1) in
           case raise_for_status response of
             Some e \<Rightarrow> (Inl e, tr2)
           | None \<Rightarrow>
               (case json_body response of
                  None \<Rightarrow> (Inl JSONDecodeError, tr2)
                | Some result \<Rightarrow>
                    (case dict_get result ''id'' JNull of
                       Inl e \<Rightarrow> (Inl e, tr2)
                     | Inr request_id \<Rightarrow>
                         if \<not> truthy request_id
                         then (Inl (ValueError ''No request ID returned from BFL API''), tr2)
                         else (Inr (''https://api.us1.bfl.ai/v1/get_result?id='' @
                                      py_str w request_id),
                               tr2 @ [Print ''Request submitted. Waiting for generation to complete...''])))))"

definition model_endpoints :: "(string \<times> string) list" where
  "model_endpoints =
     [(''flux-kontext-pro'', ''flux-kontext-pro''),
      (''flux-kontext-max'', ''flux-kontext-max''),
      (''flux-pro-1.1-ultra'', ''flux-pro-1.1-ultra''),
      (''flux-pro-1.1'', ''flux-pro-1.1''),
      (''flux-pro'', ''flux-pro''),
      (''flux-dev'', ''flux-dev'')]"

definition seed_field :: "int option \<Rightarrow> (string \<times> json) list" where
  "seed_field seed = (case seed of None \<Rightarrow> [] | Some s \<Rightarrow> [(''seed'', JNum s)])"

text \<open>\<^verbatim>\<open>bfl_generate_image\<close> up to the loop (lines 331-380).\<close>

definition bfl_generate_submit ::
  "provider \<Rightarrow> string \<Rightarrow> string option \<Rightarrow> string \<Rightarrow> string \<Rightarrow> int option \<Rightarrow> int \<Rightarrow> string \<Rightarrow>
     (error + string) \<times> event list" where
  "bfl_generate_submit w prompt api_key model aspect_ratio seed safety_tolerance output_format =
     (case str_or api_key (load_bfl_api_key w) of
        None \<Rightarrow> (Inl (ValueError no_key_message), [])
      | Some bfl_api_key \<Rightarrow>
          if bfl_api_key = [] then (Inl (ValueError no_key_message), [])
          else
            (let endpoint = (case map_of model_endpoints model of None \<Rightarrow> model | Some e \<Rightarrow> e);
                 url = ''https://api.us1.bfl.ai/v1/'' @ endpoint;
                 data = JObj ([(''prompt'', JStr prompt),
                               (''aspect_ratio'', JStr aspect_ratio),
                               (''output_format'', JStr output_format),
                               (''safety_tolerance'', JNum safety_tolerance)] @ seed_field seed)
             in submit_job w url (request_headers bfl_api_key) data []))"

text \<open>The whole function: submit, then poll from the first poll on.\<close>

definition bfl_generate_image ::
  "provider \<Rightarrow> string \<Rightarrow> string option \<Rightarrow> string \<Rightarrow> string \<Rightarrow> int option \<Rightarrow> int \<Rightarrow> string \<Rightarrow>
     ((error + image) \<times> event list) option" where
  "bfl_generate_image w prompt api_key model aspect_ratio seed safety_tolerance output_format =
     (case bfl_generate_submit w prompt api_key model aspect_ratio seed safety_tolerance
             output_format of
        (Inl e, tr) \<Rightarrow> Some (Inl e, tr)
      | (Inr result_url, tr) \<Rightarrow> poll_loop w result_url (0, tr))"

subsection \<open>Preparing an image for upload\<close>

text \<open>
  PIL's operations, as far as the program depends on them: \<^verbatim>\<open>Image.new\<close> followed by
  \<^verbatim>\<open>paste\<close> gives an RGB image of the same size, \<^verbatim>\<open>convert('RGB')\<close> likewise;
  \<^verbatim>\<open>thumbnail\<close> resizes in place to the size PIL computes for the box and keeps the mode.
\<close>

definition paste_on_white :: "image \<Rightarrow> bool \<Rightarrow> image" where
  "paste_on_white img use_alpha =
     \<lparr>mode = ''RGB'', width = width img, height = height img,
      pixels = OnWhite (pixels img) use_alpha\<rparr>"

definition convert_rgb :: "image \<Rightarrow> image" where
  "convert_rgb img =
     \<lparr>mode = ''RGB'', width = width img, height = height img, pixels = Converted (pixels img)\<rparr>"

definition thumbnail :: "provider \<Rightarrow> image \<Rightarrow> nat \<times> nat \<Rightarrow> image" where
  "thumbnail w img box =
     (let sz = thumbnail_size w (width img, height img) box in
      img\<lparr>width := fst sz, height := snd sz, pixels := Resampled (pixels img) (fst sz) (snd sz)\<rparr>)"

text \<open>Lines 416-422.\<close>

definition ensure_rgb :: "image \<Rightarrow> image" where
  "ensure_rgb input_image =
     (if mode input_image \<in> set [''RGBA'', ''LA'']
      then paste_on_white input_image (mode input_image = ''RGBA'')
      else if mode input_image \<noteq> ''RGB'' then convert_rgb input_image
      else input_image)"

definition max_dimension :: nat where
  "max_dimension = 1536"

definition edit_data :: "string \<Rightarrow> string \<Rightarrow> string \<Rightarrow> int \<Rightarrow> int option \<Rightarrow> json" where
  "edit_data prompt img_base64 output_format safety_tolerance seed =
     JObj ([(''prompt'', JStr prompt),
            (''input_image'', JStr img_base64),
            (''output_format'', JStr output_format),
            (''safety_tolerance'', JNum safety_tolerance)] @ seed_field seed)"

text \<open>\<^verbatim>\<open>bfl_edit_image\<close> up to the loop (lines 406-472).\<close>

definition bfl_edit_submit ::
  "provider \<Rightarrow> image \<Rightarrow> string \<Rightarrow> string option \<Rightarrow> string \<Rightarrow> int option \<Rightarrow> int \<Rightarrow> string \<Rightarrow>
     (error + string) \<times> event list" where
  "bfl_edit_submit w input_image prompt api_key model seed safety_tolerance output_format =
     (case str_or api_key (load_bfl_api_key w) of
        None \<Rightarrow> (Inl (ValueError no_key_message), [])
      | Some bfl_api_key \<Rightarrow>
          if bfl_api_key = [] then (Inl (ValueError no_key_message), [])
          else
            (let url = ''https://api.us1.bfl.ai/v1/'' @ model;
                 rgb_image = ensure_rgb input_image
             in case jpeg_encode w rgb_image 95 of
                  Inl e \<Rightarrow> (Inl e, [])
                | Inr buffered \<Rightarrow>
                    (let headers = request_headers bfl_api_key;
                         tr1 = [Print (''Input image size: '' @ show_size rgb_image)]
                     in if width rgb_image > max_dimension \<or> height rgb_image > max_dimension
                        then
                          (let small = thumbnail w rgb_image (max_dimension, max_dimension);
                               tr2 = tr1 @ [Print (''Resized image to: '' @ show_size small)]
                           in case jpeg_encode w small 95 of
                                Inl e \<Rightarrow> (Inl e, tr2)
                              | Inr buffered2 \<Rightarrow>
                                  submit_job w url headers
                                    (edit_data prompt (b64encode w buffered2) output_format
                                       safety_tolerance seed) tr2)
                        else
                          submit_job w url headers
                            (edit_data prompt (b64encode w buffered) output_format
                               safety_tolerance seed) tr1)))"

definition bfl_edit_image ::
  "provider \<Rightarrow> image \<Rightarrow> string \<Rightarrow> string option \<Rightarrow> string \<Rightarrow> int option \<Rightarrow> int \<Rightarrow> string \<Rightarrow>
     ((error + image) \<times> event list) option" where
  "bfl_edit_image w input_image prompt api_key model seed safety_tolerance output_format =
     (case bfl_edit_submit w input_image prompt api_key model seed safety_tolerance
             output_format of
        (Inl e, tr) \<Rightarrow> Some (Inl e, tr)
      | (Inr result_url, tr) \<Rightarrow> poll_loop w result_url (0, tr))"


subsection \<open>What the poller reads from the provider\<close>

text \<open>
  Observations the properties are stated with. \<open>poll_reads w k\<close> is the payload and the
  status that the \<open>k\<close>-th poll reads, when the response gets that far (no transport
  error, a JSON object). \<open>in_progress\<close>: that status is one of the three non-terminal
  ones. \<open>result_sample\<close>: the result URL of a payload. \<open>download\<close>: the image behind a
  URL, when the GET succeeds and the bytes decode.
\<close>

definition poll_reads :: "provider \<Rightarrow> nat \<Rightarrow> (json \<times> json) option" where
  "poll_reads w k =
     (case status_responses w k of
        Inl e \<Rightarrow> None
      | Inr r \<Rightarrow>
          (case raise_for_status r of
             Some e \<Rightarrow> None
           | None \<Rightarrow>
               (case json_body r of
                  None \<Rightarrow> None
                | Some d \<Rightarrow>
                    (case dict_get d ''status'' JNull of
                       Inl e \<Rightarrow> None
                     | Inr s \<Rightarrow> Some (d, s)))))"

definition in_progress :: "provider \<Rightarrow> nat \<Rightarrow> bool" where
  "in_progress w k =
     (case poll_reads w k of None \<Rightarrow> False | Some (d, s) \<Rightarrow> s \<in> set nonterminal_statuses)"

definition result_sample :: "json \<Rightarrow> json option" where
  "result_sample d =
     (case dict_get d ''result'' (JObj []) of
        Inl e \<Rightarrow> None
      | Inr res \<Rightarrow> (case dict_get res ''sample'' JNull of Inl e \<Rightarrow> None | Inr u \<Rightarrow> Some u))"

definition download :: "provider \<Rightarrow> json \<Rightarrow> image option" where
  "download w u =
     (case http_fetch w (py_str w u) of
        Inl e \<Rightarrow> None
      | Inr r \<Rightarrow> (case raise_for_status r of Some e \<Rightarrow> None | None \<Rightarrow> image_open w (content r)))"

text \<open>One sleep and one GET of the status endpoint per pass.\<close>

definition poll_events :: "string \<Rightarrow> nat \<Rightarrow> event list" where
  "poll_events result_url n = concat (replicate n [Sleep 1500, HttpGet result_url])"

definition log_of :: "(nat \<times> event list) + ((error + image) \<times> event list) \<Rightarrow> event list" where
  "log_of x = (case x of Inl st \<Rightarrow> snd st | Inr r \<Rightarrow> snd r)"

subsection \<open>Scripted providers\<close>

text \<open>
  A provider that answers the polls from a list and gives the answer \<open>d\<close> to every
  later poll; used to run the poller on concrete status sequences.
\<close>

definition ok_json :: "json \<Rightarrow> error + response" where
  "ok_json j = Inr \<lparr>status_code = 200, body_text = [], json_body = Some j, content = []\<rparr>"

definition status_reply :: "string \<Rightarrow> error + response" where
  "status_reply s = ok_json (JObj [(''status'', JStr s)])"

definition ready_reply :: "string \<Rightarrow> error + response" where
  "ready_reply u =
     ok_json (JObj [(''status'', JStr ''Ready''), (''result'', JObj [(''sample'', JStr u)])])"

definition scripted :: "(error + response) list \<Rightarrow> (error + response) \<Rightarrow> nat \<Rightarrow> error + response" where
  "scripted xs d k = (if k < length xs then xs ! k else d)"

definition picture :: image where
  "picture = \<lparr>mode = ''RGB'', width = 1024, height = 1024, pixels = Source 0\<rparr>"

definition test_provider ::
  "(nat \<Rightarrow> error + response) \<Rightarrow> (string \<Rightarrow> error + response) \<Rightarrow> provider" where
  "test_provider statuses fetch =
     \<lparr>bfl_key_env = Some ''key'',
      http_post = (\<lambda>url headers data. ok_json (JObj [(''id'', JStr ''job1'')])),
      status_responses = statuses,
      http_fetch = fetch,
      image_open = (\<lambda>bytes. if bytes = ''jpegbytes'' then Some picture else None),
      py_repr = (\<lambda>j. ''<repr>''),
      jpeg_encode = (\<lambda>img q. Inr ''jpegbytes''),
      b64encode = (\<lambda>bytes. ''b64:'' @ bytes),
      thumbnail_size = (\<lambda>sz box. (min (fst sz) (fst box), min (snd sz) (snd box)))\<rparr>"

definition serve :: "string \<Rightarrow> error + response" where
  "serve url =
     (if url = ''https://cdn/img.jpg''
      then Inr \<lparr>status_code = 200, body_text = [], json_body = None, content = ''jpegbytes''\<rparr>
      else Inr \<lparr>status_code = 404, body_text = [], json_body = None, content = []\<rparr>)"


text \<open>
  A provider whose job has failed: every poll is answered 200 with the body
  \<^verbatim>\<open>{"status": "Error"}\<close>, which \<^verbatim>\<open>response.json()\<close> parses to a dict that Python prints as
  \<^verbatim>\<open>{'status': 'Error'}\<close>.
\<close>

definition error_body :: string where
  \<open>error_body = ''{"status": "Error"}''\<close>

definition error_provider :: provider where
  "error_provider =
     (test_provider
        (scripted []
           (Inr \<lparr>status_code = 200, body_text = error_body,
                 json_body = Some (JObj [(''status'', JStr ''Error'')]), content = error_body\<rparr>))
        serve)
       \<lparr>py_repr := (\<lambda>j. if j = JObj [(''status'', JStr ''Error'')]
                         then ''{'status': 'Error'}'' else ''<repr>'')\<rparr>"

text \<open>A provider whose submission answers 200 with a JSON object that has no job identifier.\<close>

definition no_id_provider :: provider where
  "no_id_provider =
     (test_provider (scripted [] (status_reply ''Pending'')) serve)
       \<lparr>http_post := (\<lambda>url headers data. ok_json (JObj [(''message'', JStr ''accepted'')]))\<rparr>"


text \<open>The events of the poll loop: sleeping and GET requests.\<close>

fun waits_or_polls :: "event \<Rightarrow> bool" where
  "waits_or_polls (Sleep ms) = True"
| "waits_or_polls (HttpGet url) = True"
| "waits_or_polls e = False"


section \<open>The primary provider and the command line\<close>

text \<open>
  The machine the program runs on. The state of the file system is a set of paths, the
  ones \<^verbatim>\<open>os.path.exists\<close> accepts; it is threaded through the functions that write or
  remove files. Paths follow \<^verbatim>\<open>posixpath\<close>. The fields: the environment's OpenAI key;
  what constructing the client raises, if anything; the UUID drawn and the temporary
  directory; what saving an image as PNG raises, if anything; \<^verbatim>\<open>Image.open\<close> on an
  existing local file and on bytes; \<^verbatim>\<open>requests.get\<close>; the client's two image calls;
  \<^verbatim>\<open>base64.b64decode\<close>; what saving an image to a path in a format raises, if
  anything; the text of an exception raised outside this program.
\<close>

record image_data =
  data_b64_json :: "string option"
  data_url :: "string option"

record host =
  openai_key_env :: "string option"
  new_client :: "string option \<Rightarrow> string option \<Rightarrow> error option"
  uuid4 :: string
  tempdir :: string
  save_png :: "image \<Rightarrow> error option"
  local_image :: "string \<Rightarrow> error + image"
  bytes_image :: "string \<Rightarrow> image option"
  url_get :: "string \<Rightarrow> error + response"
  images_edit :: "string \<Rightarrow> string option \<Rightarrow> (string \<times> json) list \<Rightarrow> error + image_data list"
  images_create_variation :: "string \<Rightarrow> (string \<times> json) list \<Rightarrow> error + image_data list"
  b64decode :: "string \<Rightarrow> string option"
  save_as :: "image \<Rightarrow> string \<Rightarrow> string \<Rightarrow> error option"
  exc_str :: "error \<Rightarrow> string"

subsection \<open>Paths\<close>

definition is_url :: "string \<Rightarrow> bool" where
  "is_url p = (prefix ''http://'' p \<or> prefix ''https://'' p)"

definition isabs :: "string \<Rightarrow> bool" where
  "isabs p = prefix ''/'' p"

definition path_join :: "string \<Rightarrow> string \<Rightarrow> string" where
  "path_join a b =
     (if prefix ''/'' b then b
      else if a = [] \<or> suffix ''/'' a then a @ b
      else a @ ''/'' @ b)"

definition resolve_output_path :: "string \<Rightarrow> string option \<Rightarrow> string" where
  "resolve_output_path output_path output_dir =
     (case output_dir of
        None \<Rightarrow> output_path
      | Some d \<Rightarrow> if d \<noteq> [] \<and> \<not> isabs output_path then path_join d output_path
                  else output_path)"

definition resolve_input_path :: "string set \<Rightarrow> string option \<Rightarrow> string option \<Rightarrow> string option" where
  "resolve_input_path fs input_path base_dir =
     (case input_path of
        None \<Rightarrow> None
      | Some p \<Rightarrow>
          if is_url p then Some p
          else if isabs p then Some p
          else
            (case base_dir of
               None \<Rightarrow> Some p
             | Some b \<Rightarrow>
                 if b \<noteq> [] then
                   (let candidate = path_join b p in
                    if candidate \<in> fs then Some candidate else Some p)
                 else Some p))"

text \<open>\<^verbatim>\<open>s.rsplit('.', 1)[0]\<close>, and \<^verbatim>\<open>s.rsplit('.', 1)[1] if '.' in s else 'png'\<close>.\<close>

definition base_name :: "string \<Rightarrow> string" where
  "base_name s =
     (if CHR ''.'' \<in> set s then rev (tl (dropWhile (\<lambda>c. c \<noteq> CHR ''.'') (rev s))) else s)"

definition extension :: "string \<Rightarrow> string" where
  "extension s =
     (if CHR ''.'' \<in> set s then rev (takeWhile (\<lambda>c. c \<noteq> CHR ''.'') (rev s)) else ''png'')"

text \<open>\<^verbatim>\<open>str.upper\<close> on ASCII text (the output formats are png, jpeg, webp).\<close>

definition upper_char :: "char \<Rightarrow> char" where
  "upper_char c =
     (case map_of (zip ''abcdefghijklmnopqrstuvwxyz'' ''ABCDEFGHIJKLMNOPQRSTUVWXYZ'') c of
        None \<Rightarrow> c
      | Some u \<Rightarrow> u)"

definition upper :: "string \<Rightarrow> string" where
  "upper s = map upper_char s"

subsection \<open>Exceptions and their text\<close>

definition str_of_error :: "host \<Rightarrow> error \<Rightarrow> string" where
  "str_of_error h e =
     (case e of
        ValueError m \<Rightarrow> m
      | FileNotFoundError m \<Rightarrow> m
      | NotImplementedError m \<Rightarrow> m
      | _ \<Rightarrow> exc_str h e)"

text \<open>\<^verbatim>\<open>os.remove\<close>.\<close>

definition remove_file :: "string \<Rightarrow> string set \<Rightarrow> error + string set" where
  "remove_file p fs = (if p \<in> fs then Inr (fs - {p}) else Inl (OSError p))"

subsection \<open>Loading an image\<close>

definition process_image :: "host \<Rightarrow> string set \<Rightarrow> string \<Rightarrow> (error + image) \<times> event list" where
  "process_image h fs image_path =
     (if is_url image_path then
        (let failed = (\<lambda>e. Inl (ValueError (''Failed to download image from URL: '' @
                                              str_of_error h e)))
         in case url_get h image_path of
              Inl e \<Rightarrow> (failed e, [HttpGet image_path])
            | Inr response \<Rightarrow>
                (case raise_for_status response of
                   Some e \<Rightarrow> (failed e, [HttpGet image_path])
                 | None \<Rightarrow>
                     (case bytes_image h (content response) of
                        None \<Rightarrow> (failed UnidentifiedImageError, [HttpGet image_path])
                      | Some img \<Rightarrow> (Inr img, [HttpGet image_path]))))
      else if image_path \<notin> fs
      then (Inl (FileNotFoundError (''Image file not found: '' @ image_path)), [])
      else (local_image h image_path, []))"

subsection \<open>Reading an image out of a response\<close>

text \<open>The same four branches at lines 117-123, 165-171, 212-218 and 223-229.\<close>

definition decode_image_data :: "host \<Rightarrow> image_data \<Rightarrow> error + image" where
  "decode_image_data h d =
     (if str_truthy (data_b64_json d) then
        (case b64decode h (case data_b64_json d of Some s \<Rightarrow> s | None \<Rightarrow> []) of
           None \<Rightarrow> Inl Base64Error
         | Some image_bytes \<Rightarrow>
             (case bytes_image h image_bytes of
                None \<Rightarrow> Inl UnidentifiedImageError
              | Some img \<Rightarrow> Inr img))
      else if str_truthy (data_url d)
      then Inl (NotImplementedError ''URL response handling is not implemented'')
      else Inl (ValueError ''No image data found in the response''))"

fun decode_all :: "host \<Rightarrow> image_data list \<Rightarrow> error + image list" where
  "decode_all h [] = Inr []"
| "decode_all h (d # ds) =
     (case decode_image_data h d of
        Inl e \<Rightarrow> Inl e
      | Inr img \<Rightarrow> (case decode_all h ds of Inl e \<Rightarrow> Inl e | Inr imgs \<Rightarrow> Inr (img # imgs)))"

definition optional_param :: "string \<Rightarrow> string \<Rightarrow> (string \<times> json) list" where
  "optional_param k v = (if v \<noteq> ''auto'' then [(k, JStr v)] else [])"

definition client_base :: "string option \<Rightarrow> string option" where
  "client_base api_base = (if str_truthy api_base then api_base else None)"

subsection \<open>\<^verbatim>\<open>edit_image\<close>\<close>

text \<open>
  The \<^verbatim>\<open>finally\<close> block of lines 173-179: remove the input file, then the mask file when
  there is one. An exception raised here replaces the outcome of the \<^verbatim>\<open>try\<close> block.
\<close>

definition edit_cleanup ::
  "string \<Rightarrow> string option \<Rightarrow> (error + image) \<Rightarrow> string set \<Rightarrow> (error + image) \<times> string set" where
  "edit_cleanup temp_input_path temp_mask_path outcome fs =
     (case remove_file temp_input_path fs of
        Inl e \<Rightarrow> (Inl e, fs)
      | Inr fs1 \<Rightarrow>
          (case temp_mask_path of
             None \<Rightarrow> (outcome, fs1)
           | Some m \<Rightarrow>
               (case remove_file m fs1 of
                  Inl e \<Rightarrow> (Inl e, fs1)
                | Inr fs2 \<Rightarrow> (outcome, fs2))))"

text \<open>The \<^verbatim>\<open>try\<close> block of lines 160-171.\<close>

definition edit_request ::
  "host \<Rightarrow> string \<Rightarrow> string option \<Rightarrow> (string \<times> json) list \<Rightarrow> error + image" where
  "edit_request h temp_input_path temp_mask_path params =
     (case images_edit h temp_input_path temp_mask_path params of
        Inl e \<Rightarrow> Inl e
      | Inr response_data \<Rightarrow>
          (case response_data of
             [] \<Rightarrow> Inl IndexError
           | d # ds \<Rightarrow> decode_image_data h d))"

definition edit_image ::
  "host \<Rightarrow> string set \<Rightarrow> image \<Rightarrow> string \<Rightarrow> image option \<Rightarrow> string option \<Rightarrow> string option \<Rightarrow>
     string \<Rightarrow> string \<Rightarrow> (error + image) \<times> string set \<times> event list" where
  "edit_image h fs input_image prompt mask_image api_key api_base quality size_arg =
     (case new_client h (str_or api_key (openai_key_env h)) (client_base api_base) of
        Some e \<Rightarrow> (Inl e, fs, [])
      | None \<Rightarrow>
          (let temp_input_path = path_join (tempdir h) (''input_'' @ uuid4 h @ ''.png'') in
           case save_png h input_image of
             Some e \<Rightarrow> (Inl e, fs, [])
           | None \<Rightarrow>
               (let fs1 = insert temp_input_path fs;
                    params = [(''prompt'', JStr prompt), (''model'', JStr ''gpt-image-1'')] @
                             optional_param ''quality'' quality @ optional_param ''size'' size_arg
                in case mask_image of
                     None \<Rightarrow>
                       (let r = edit_cleanup temp_input_path None
                                  (edit_request h temp_input_path None params) fs1
                        in (fst r, snd r, [ApiCall ''images.edit'']))
                   | Some mask_img \<Rightarrow>
                       (let temp_mask_path = path_join (tempdir h) (''mask_'' @ uuid4 h @ ''.png'') in
                        case save_png h mask_img of
                          Some e \<Rightarrow> (Inl e, fs1, [])
                        | None \<Rightarrow>
                            (let fs2 = insert temp_mask_path fs1;
                                 r = edit_cleanup temp_input_path (Some temp_mask_path)
                                       (edit_request h temp_input_path (Some temp_mask_path) params)
                                       fs2
                             in (fst r, snd r, [ApiCall ''images.edit'']))))))"

subsection \<open>\<^verbatim>\<open>create_variations\<close>\<close>

datatype variations = One image | Many "image list"

text \<open>The \<^verbatim>\<open>try\<close> block of lines 206-230.\<close>

definition variation_request ::
  "host \<Rightarrow> string \<Rightarrow> int \<Rightarrow> (string \<times> json) list \<Rightarrow> error + variations" where
  "variation_request h temp_input_path n params =
     (case images_create_variation h temp_input_path params of
        Inl e \<Rightarrow> Inl e
      | Inr response_data \<Rightarrow>
          if n = 1 then
            (case response_data of
               [] \<Rightarrow> Inl IndexError
             | d # ds \<Rightarrow> (case decode_image_data h d of Inl e \<Rightarrow> Inl e | Inr img \<Rightarrow> Inr (One img)))
          else
            (case decode_all h response_data of Inl e \<Rightarrow> Inl e | Inr imgs \<Rightarrow> Inr (Many imgs)))"

definition create_variations ::
  "host \<Rightarrow> string set \<Rightarrow> image \<Rightarrow> string option \<Rightarrow> string option \<Rightarrow> int \<Rightarrow> string \<Rightarrow>
     (error + variations) \<times> string set \<times> event list" where
  "create_variations h fs input_image api_key api_base n size_arg =
     (case new_client h (str_or api_key (openai_key_env h)) (client_base api_base) of
        Some e \<Rightarrow> (Inl e, fs, [])
      | None \<Rightarrow>
          (let temp_input_path = path_join (tempdir h) (''input_'' @ uuid4 h @ ''.png'') in
           case save_png h input_image of
             Some e \<Rightarrow> (Inl e, fs, [])
           | None \<Rightarrow>
               (let fs1 = insert temp_input_path fs;
                    params = [(''n'', JNum n)] @ optional_param ''size'' size_arg;
                    outcome = variation_request h temp_input_path n params
                in case remove_file temp_input_path fs1 of
                     Inl e \<Rightarrow> (Inl e, fs1, [ApiCall ''images.create_variation''])
                   | Inr fs2 \<Rightarrow> (outcome, fs2, [ApiCall ''images.create_variation'']))))"

subsection \<open>\<^verbatim>\<open>variations_command\<close>\<close>

record variations_args =
  arg_input :: string
  arg_output :: string
  arg_n :: int
  arg_size :: string
  arg_output_format :: string
  arg_provider :: string
  arg_api_key :: "string option"
  arg_api_base :: "string option"
  arg_output_dir :: "string option"

text \<open>How a command ends: it returns to \<^verbatim>\<open>main\<close>, or \<^verbatim>\<open>exit(code)\<close> ends the process.\<close>

datatype ending = Returned | Exit nat

text \<open>The handler \<^verbatim>\<open>except Exception as e\<close> of lines 672-674.\<close>

definition command_failed ::
  "host \<Rightarrow> error \<Rightarrow> string set \<Rightarrow> event list \<Rightarrow> ending \<times> string set \<times> event list" where
  "command_failed h e fs tr = (Exit 1, fs, tr @ [Print (''Error: '' @ str_of_error h e)])"

text \<open>
  \<^verbatim>\<open>img.save(output_path, format=...)\<close> followed by the line printed; \<open>Some e\<close> when the
  save raises.
\<close>

definition save_image ::
  "host \<Rightarrow> image \<Rightarrow> string \<Rightarrow> string \<Rightarrow> string set \<Rightarrow> event list \<Rightarrow>
     error option \<times> string set \<times> event list" where
  "save_image h img output_path fmt fs tr =
     (case save_as h img output_path fmt of
        Some e \<Rightarrow> (Some e, fs, tr)
      | None \<Rightarrow>
          (None, insert output_path fs,
           tr @ [SaveImage img output_path fmt, Print (''Image saved to '' @ output_path)]))"

text \<open>The loop of lines 667-670; \<open>i\<close> is the index \<^verbatim>\<open>enumerate\<close> gives.\<close>

fun save_numbered ::
  "host \<Rightarrow> string \<Rightarrow> string \<Rightarrow> string \<Rightarrow> nat \<Rightarrow> image list \<Rightarrow> string set \<Rightarrow> event list \<Rightarrow>
     error option \<times> string set \<times> event list" where
  "save_numbered h base ext fmt i [] fs tr = (None, fs, tr)"
| "save_numbered h base ext fmt i (img # imgs) fs tr =
     (case save_image h img (base @ ''_'' @ show_nat (i + 1) @ ''.'' @ ext) fmt fs tr of
        (Some e, fs', tr') \<Rightarrow> (Some e, fs', tr')
      | (None, fs', tr') \<Rightarrow> save_numbered h base ext fmt (i + 1) imgs fs' tr')"

definition variations_command ::
  "host \<Rightarrow> string set \<Rightarrow> variations_args \<Rightarrow> ending \<times> string set \<times> event list" where
  "variations_command h fs args =
     (case resolve_input_path fs (Some (arg_input args)) (arg_output_dir args) of
        None \<Rightarrow> command_failed h AttributeError fs []
      | Some resolved_input \<Rightarrow>
          (case process_image h fs resolved_input of
             (Inl e, tr) \<Rightarrow> command_failed h e fs tr
           | (Inr input_image, tr) \<Rightarrow>
               if arg_provider args = ''bfl''
               then (Exit 1, fs, tr @ [Print ''Error: Variations not supported with BFL provider''])
               else
                 (case create_variations h fs input_image (arg_api_key args) (arg_api_base args)
                         (arg_n args) (arg_size args) of
                    (Inl e, fs1, tr1) \<Rightarrow> command_failed h e fs1 (tr @ tr1)
                  | (Inr result_images, fs1, tr1) \<Rightarrow>
                      (let fmt = upper (arg_output_format args);
                           base_output = resolve_output_path (arg_output args) (arg_output_dir args)
                       in if arg_n args = 1 then
                            (case result_images of
                               Many imgs \<Rightarrow> command_failed h AttributeError fs1 (tr @ tr1)
                             | One img \<Rightarrow>
                                 (case save_image h img base_output fmt fs1 (tr @ tr1) of
                                    (Some e, fs2, tr2) \<Rightarrow> command_failed h e fs2 tr2
                                  | (None, fs2, tr2) \<Rightarrow> (Returned, fs2, tr2)))
                          else
                            (case result_images of
                               One img \<Rightarrow> command_failed h AttributeError fs1 (tr @ tr1)
                             | Many imgs \<Rightarrow>
                                 (case save_numbered h (base_name base_output)
                                         (extension base_output) fmt 0 imgs fs1 (tr @ tr1) of
                                    (Some e, fs2, tr2) \<Rightarrow> command_failed h e fs2 tr2
                                  | (None, fs2, tr2) \<Rightarrow> (Returned, fs2, tr2)))))))"


subsection \<open>A concrete machine\<close>

text \<open>
  A machine to run the commands on: two local images, one of them in a mode PNG cannot
  hold; a client that answers every call with as many images as asked for; saving to the
  output path always works.
\<close>

definition cmyk_mask :: image where
  "cmyk_mask = \<lparr>mode = ''CMYK'', width = 1024, height = 1024, pixels = Source 2\<rparr>"

definition answer :: image_data where
  "answer = \<lparr>data_b64_json = Some ''anBlZw=='', data_url = None\<rparr>"

definition test_host :: host where
  "test_host =
     \<lparr>openai_key_env = Some ''sk-test'',
      new_client = (\<lambda>k b. case k of None \<Rightarrow> Some (OpenAIError ''no api key'') | Some x \<Rightarrow> None),
      uuid4 = ''0f8fad5b'',
      tempdir = ''/tmp'',
      save_png = (\<lambda>img. if mode img = ''CMYK''
                           then Some (OSError ''cannot write mode CMYK as PNG'') else None),
      local_image = (\<lambda>p. if p = ''/work/mask.jpg'' then Inr cmyk_mask else Inr picture),
      bytes_image = (\<lambda>bytes. if bytes = ''jpegbytes'' then Some picture else None),
      url_get = serve,
      images_edit = (\<lambda>p m params. Inr [answer]),
      images_create_variation =
        (\<lambda>p params. case map_of params ''n'' of
                        Some (JNum k) \<Rightarrow> Inr (replicate (nat k) answer)
                      | _ \<Rightarrow> Inl (OpenAIError ''bad request'')),
      b64decode = (\<lambda>s. if s = ''anBlZw=='' then Some ''jpegbytes'' else None),
      save_as = (\<lambda>img p fmt. None),
      exc_str = (\<lambda>e. ''<exception>'')\<rparr>"

definition test_files :: "string set" where
  "test_files = {''/work/in.png'', ''/work/mask.jpg''}"

definition test_args :: variations_args where
  "test_args =
     \<lparr>arg_input = ''/work/in.png'', arg_output = ''out.png'', arg_n = 3,
      arg_size = ''1024x1024'', arg_output_format = ''png'', arg_provider = ''openai'',
      arg_api_key = None, arg_api_base = None, arg_output_dir = None\<rparr>"

text \<open>The events that reach the network: HTTP requests and calls of the provider's client.\<close>

fun network_call :: "event \<Rightarrow> bool" where
  "network_call (HttpPost url data) = True"
| "network_call (HttpGet url) = True"
| "network_call (ApiCall name) = True"
| "network_call e = False"

fun provider_call :: "event \<Rightarrow> bool" where
  "provider_call (HttpPost url data) = True"
| "provider_call (ApiCall name) = True"
| "provider_call e = False"


section \<open>Properties of the poll loop\<close>

subsection \<open>One pass, and the loop against its first passes\<close>

lemma poll_iteration_reads:
  "poll_reads w k = Some (d, s) \<Longrightarrow>
   poll_iteration w url (k, tr) =
     (if s = JStr ''Ready'' then Inr (fetch_result w d (tr @ [Sleep 1500, HttpGet url]))
      else if s \<notin> set nonterminal_statuses
      then Inr (Inl (ValueError (failure_message w s d)), tr @ [Sleep 1500, HttpGet url])
      else Inl (Suc k, tr @ [Sleep 1500, HttpGet url]))"
  by (auto simp: poll_reads_def poll_iteration_def Let_def split: sum.splits option.splits)

lemma poll_iteration_unread:
  "poll_reads w k = None \<Longrightarrow>
   \<exists>e. poll_iteration w url (k, tr) = Inr (Inl e, tr @ [Sleep 1500, HttpGet url])"
  by (auto simp: poll_reads_def poll_iteration_def Let_def split: sum.splits option.splits)

lemma poll_iteration_in_progress:
  "in_progress w k \<Longrightarrow> poll_iteration w url (k, tr) = Inl (Suc k, tr @ [Sleep 1500, HttpGet url])"
  by (auto simp: in_progress_def poll_iteration_reads nonterminal_statuses_def split: option.splits)

lemma poll_iteration_continues:
  "poll_iteration w url (k, tr) = Inl st' \<Longrightarrow> in_progress w k \<and> st' = (Suc k, tr @ [Sleep 1500, HttpGet url])"
  by (auto simp: in_progress_def poll_reads_def poll_iteration_def Let_def split: sum.splits option.splits if_splits)

lemma poll_loop_passes:
  "poll_passes n w url st = Inr r \<Longrightarrow> poll_loop w url st = Some r"
proof (induction n arbitrary: st)
  case 0
  then show ?case by simp
next
  case (Suc n)
  show ?case
  proof (cases "poll_iteration w url st")
    case (Inl st')
    with Suc.prems have "poll_passes n w url st' = Inr r" by simp
    then have "poll_loop w url st' = Some r" by (rule Suc.IH)
    with Inl show ?thesis by (subst poll_loop.simps) simp
  next
    case (Inr r')
    with Suc.prems have "r' = r" by simp
    with Inr show ?thesis by (subst poll_loop.simps) simp
  qed
qed

lemma poll_loop_returns:
  "poll_loop w url st = Some r \<Longrightarrow> \<exists>n. poll_passes n w url st = Inr r"
proof (induction rule: poll_loop.raw_induct[rotated 1, consumes 1])
  case (1 f w url st r)
  show ?case
  proof (cases "poll_iteration w url st")
    case (Inl st')
    with 1(2) have "f w url st' = Some r" by simp
    then obtain n where "poll_passes n w url st' = Inr r" using 1(1) by blast
    with Inl have "poll_passes (Suc n) w url st = Inr r" by simp
    then show ?thesis by blast
  next
    case (Inr r')
    with 1(2) have "r' = r" by simp
    with Inr have "poll_passes (Suc 0) w url st = Inr r" by simp
    then show ?thesis by blast
  qed
qed


subsection \<open>When the poller returns an image\<close>

lemma poll_passes_in_progress:
  "(\<forall>j<n. in_progress w (k + j)) \<Longrightarrow>
   poll_passes n w url (k, tr) = Inl (k + n, tr @ poll_events url n)"
proof (induction n arbitrary: k tr)
  case 0
  then show ?case by (simp add: poll_events_def)
next
  case (Suc n)
  from Suc.prems have "in_progress w k" by force
  then have step: "poll_iteration w url (k, tr) = Inl (Suc k, tr @ [Sleep 1500, HttpGet url])"
    by (rule poll_iteration_in_progress)
  from Suc.prems have "\<forall>j<n. in_progress w (Suc k + j)" by auto
  then have "poll_passes n w url (Suc k, tr @ [Sleep 1500, HttpGet url]) =
      Inl (Suc k + n, (tr @ [Sleep 1500, HttpGet url]) @ poll_events url n)"
    by (rule Suc.IH)
  with step show ?case by (simp add: poll_events_def)
qed

lemma poll_passes_Suc_end:
  "poll_passes (Suc n) w url st =
     (case poll_passes n w url st of Inl st' \<Rightarrow> poll_iteration w url st' | Inr r \<Rightarrow> Inr r)"
proof (induction n arbitrary: st)
  case 0
  show ?case by (simp split: sum.splits)
next
  case (Suc n)
  show ?case
  proof (cases "poll_iteration w url st")
    case (Inl st')
    have "poll_passes (Suc (Suc n)) w url st = poll_passes (Suc n) w url st'"
      using Inl by simp
    also have "\<dots> = (case poll_passes n w url st' of
        Inl st'' \<Rightarrow> poll_iteration w url st'' | Inr r \<Rightarrow> Inr r)"
      by (rule Suc.IH)
    also have "poll_passes n w url st' = poll_passes (Suc n) w url st"
      using Inl by simp
    finally show ?thesis .
  next
    case (Inr r)
    then show ?thesis by simp
  qed
qed

lemma fetch_result_image:
  "fetch_result w d tr = (Inr img, tr') \<longleftrightarrow>
     (\<exists>u. result_sample d = Some u \<and> truthy u \<and> download w u = Some img \<and>
          tr' = tr @ [HttpGet (py_str w u)])"
  by (auto simp: fetch_result_def result_sample_def download_def Let_def
           split: sum.splits option.splits)

lemma poll_iteration_image:
  "poll_iteration w url (k, tr) = Inr (Inr img, tr') \<longleftrightarrow>
     (\<exists>d u. poll_reads w k = Some (d, JStr ''Ready'') \<and> result_sample d = Some u \<and> truthy u \<and>
            download w u = Some img \<and> tr' = tr @ [Sleep 1500, HttpGet url, HttpGet (py_str w u)])"
proof (cases "poll_reads w k")
  case None
  then show ?thesis using poll_iteration_unread [OF None, of url tr] by auto
next
  case (Some p)
  obtain d s where p: "p = (d, s)" by (cases p)
  show ?thesis
    using Some unfolding p
    by (auto simp: poll_iteration_reads fetch_result_image)
qed

lemma poll_passes_image:
  "poll_passes n w url (k, tr) = Inr (Inr img, tr') \<Longrightarrow>
   \<exists>m d u. (\<forall>j<m. in_progress w (k + j)) \<and> poll_reads w (k + m) = Some (d, JStr ''Ready'') \<and>
      result_sample d = Some u \<and> truthy u \<and> download w u = Some img \<and>
      tr' = tr @ poll_events url (Suc m) @ [HttpGet (py_str w u)]"
proof (induction n arbitrary: k tr)
  case 0
  then show ?case by simp
next
  case (Suc n)
  show ?case
  proof (cases "poll_iteration w url (k, tr)")
    case (Inl st')
    then have ip: "in_progress w k" and st': "st' = (Suc k, tr @ [Sleep 1500, HttpGet url])"
      using poll_iteration_continues by blast+
    from Suc.prems Inl st'
    have "poll_passes n w url (Suc k, tr @ [Sleep 1500, HttpGet url]) = Inr (Inr img, tr')"
      by simp
    from Suc.IH [OF this] obtain m d u where
      m: "\<forall>j<m. in_progress w (Suc k + j)" "poll_reads w (Suc k + m) = Some (d, JStr ''Ready'')"
         "result_sample d = Some u" "truthy u" "download w u = Some img"
         "tr' = (tr @ [Sleep 1500, HttpGet url]) @ poll_events url (Suc m) @ [HttpGet (py_str w u)]"
      by blast
    have "\<forall>j<Suc m. in_progress w (k + j)"
    proof (intro allI impI)
      fix j assume "j < Suc m"
      show "in_progress w (k + j)"
      proof (cases j)
        case 0 with ip show ?thesis by simp
      next
        case (Suc i)
        with \<open>j < Suc m\<close> m(1) show ?thesis by auto
      qed
    qed
    moreover have "poll_reads w (k + Suc m) = Some (d, JStr ''Ready'')" using m(2) by simp
    moreover have "tr' = tr @ poll_events url (Suc (Suc m)) @ [HttpGet (py_str w u)]"
      using m(6) by (simp add: poll_events_def)
    ultimately show ?thesis using m(3,4,5) by blast
  next
    case (Inr r)
    with Suc.prems have "poll_iteration w url (k, tr) = Inr (Inr img, tr')" by simp
    then obtain d u where "poll_reads w k = Some (d, JStr ''Ready'')" "result_sample d = Some u"
      "truthy u" "download w u = Some img" "tr' = tr @ [Sleep 1500, HttpGet url, HttpGet (py_str w u)]"
      unfolding poll_iteration_image by blast
    then have "(\<forall>j<0. in_progress w (k + j)) \<and> poll_reads w (k + 0) = Some (d, JStr ''Ready'') \<and>
      result_sample d = Some u \<and> truthy u \<and> download w u = Some img \<and>
      tr' = tr @ poll_events url (Suc 0) @ [HttpGet (py_str w u)]"
      by (simp add: poll_events_def)
    then show ?thesis by blast
  qed
qed

lemma poll_loop_image_after:
  assumes "\<forall>j<m. in_progress w j" "poll_reads w m = Some (d, JStr ''Ready'')"
    "result_sample d = Some u" "truthy u" "download w u = Some img"
  shows "poll_loop w url (0, tr) =
     Some (Inr img, tr @ poll_events url (Suc m) @ [HttpGet (py_str w u)])"
proof -
  from assms(1) have "poll_passes m w url (0, tr) = Inl (m, tr @ poll_events url m)"
    using poll_passes_in_progress [of m w 0 url tr] by simp
  moreover have "poll_iteration w url (m, tr @ poll_events url m) =
      Inr (Inr img, (tr @ poll_events url m) @ [Sleep 1500, HttpGet url, HttpGet (py_str w u)])"
    unfolding poll_iteration_image using assms(2-5) by blast
  ultimately have "poll_passes (Suc m) w url (0, tr) =
      Inr (Inr img, (tr @ poll_events url m) @ [Sleep 1500, HttpGet url, HttpGet (py_str w u)])"
    by (simp add: poll_passes_Suc_end del: poll_passes.simps)
  moreover have "poll_events url (Suc m) = poll_events url m @ [Sleep 1500, HttpGet url]"
    by (induction m) (simp_all add: poll_events_def)
  ultimately have "poll_passes (Suc m) w url (0, tr) =
      Inr (Inr img, tr @ poll_events url (Suc m) @ [HttpGet (py_str w u)])"
    by (simp del: poll_passes.simps)
  then show ?thesis by (rule poll_loop_passes)
qed

text \<open>
  Claim C1, as amended. Both \<^verbatim>\<open>bfl_generate_image\<close> and \<^verbatim>\<open>bfl_edit_image\<close> run
  \<open>poll_loop\<close> from state \<open>(0, tr)\<close> once the submission has succeeded. The poller
  returns the image \<open>img\<close> if and only if, for some \<open>k\<close>, the first \<open>k\<close> polls read a
  status among Queued, Processing, Pending, poll \<open>k\<close> reads the status Ready with a
  truthy result URL, and the GET of that URL succeeds with bytes that decode to \<open>img\<close>;
  the log is then exactly \<open>k + 1\<close> sleep-and-poll pairs and that one GET. On each of
  the three non-terminal statuses a pass of the loop does not return and goes on to
  the next poll; while only such statuses have been read the loop has not returned.
\<close>

theorem poller_returns_image_iff:
  "(poll_loop w url (0, tr) = Some (Inr img, tr') \<longleftrightarrow>
      (\<exists>k d u. (\<forall>j<k. in_progress w j) \<and> poll_reads w k = Some (d, JStr ''Ready'') \<and>
         result_sample d = Some u \<and> truthy u \<and> download w u = Some img \<and>
         tr' = tr @ poll_events url (Suc k) @ [HttpGet (py_str w u)]))
   \<and> (in_progress w i \<longrightarrow>
        poll_iteration w url (i, tr) = Inl (Suc i, tr @ [Sleep 1500, HttpGet url]))
   \<and> ((\<forall>j<n. in_progress w j) \<longrightarrow>
        poll_passes n w url (0, tr) = Inl (n, tr @ poll_events url n))"
proof (intro conjI impI iffI)
  assume "poll_loop w url (0, tr) = Some (Inr img, tr')"
  then obtain n where "poll_passes n w url (0, tr) = Inr (Inr img, tr')"
    using poll_loop_returns by blast
  from poll_passes_image [OF this]
  show "\<exists>k d u. (\<forall>j<k. in_progress w j) \<and> poll_reads w k = Some (d, JStr ''Ready'') \<and>
         result_sample d = Some u \<and> truthy u \<and> download w u = Some img \<and>
         tr' = tr @ poll_events url (Suc k) @ [HttpGet (py_str w u)]"
    by simp
next
  assume "\<exists>k d u. (\<forall>j<k. in_progress w j) \<and> poll_reads w k = Some (d, JStr ''Ready'') \<and>
         result_sample d = Some u \<and> truthy u \<and> download w u = Some img \<and>
         tr' = tr @ poll_events url (Suc k) @ [HttpGet (py_str w u)]"
  then show "poll_loop w url (0, tr) = Some (Inr img, tr')"
    using poll_loop_image_after by blast
next
  assume "in_progress w i"
  then show "poll_iteration w url (i, tr) = Inl (Suc i, tr @ [Sleep 1500, HttpGet url])"
    by (rule poll_iteration_in_progress)
next
  assume "\<forall>j<n. in_progress w j"
  then show "poll_passes n w url (0, tr) = Inl (n, tr @ poll_events url n)"
    using poll_passes_in_progress [of n w 0 url tr] by simp
qed


subsection \<open>Runs on scripted providers\<close>

lemmas run_defs = test_provider_def scripted_def status_reply_def ready_reply_def ok_json_def
  serve_def poll_reads_def in_progress_def result_sample_def download_def raise_for_status_def
  nonterminal_statuses_def poll_events_def

text \<open>
  The amended C1 at a provider that answers Queued, then Ready with a URL whose download
  decodes to \<open>picture\<close>.
\<close>

theorem poller_returns_image_iff_witness:
  "poll_loop (test_provider (scripted [status_reply ''Queued''] (ready_reply ''https://cdn/img.jpg'')) serve)
      ''https://api/get_result?id=job1'' (0, []) =
     Some (Inr picture,
       [Sleep 1500, HttpGet ''https://api/get_result?id=job1'',
        Sleep 1500, HttpGet ''https://api/get_result?id=job1'',
        HttpGet ''https://cdn/img.jpg''])
   \<and> poll_iteration (test_provider (scripted [status_reply ''Queued''] (ready_reply ''https://cdn/img.jpg'')) serve)
      ''https://api/get_result?id=job1'' (0, []) =
     Inl (Suc 0, [Sleep 1500, HttpGet ''https://api/get_result?id=job1''])
   \<and> poll_passes (Suc 0) (test_provider (scripted [status_reply ''Queued''] (ready_reply ''https://cdn/img.jpg'')) serve)
      ''https://api/get_result?id=job1'' (0, []) =
     Inl (Suc 0, [Sleep 1500, HttpGet ''https://api/get_result?id=job1''])"
proof -
  let ?w = "test_provider (scripted [status_reply ''Queued''] (ready_reply ''https://cdn/img.jpg'')) serve"
  let ?u = "''https://api/get_result?id=job1''"
  let ?d = "JObj [(''status'', JStr ''Ready''), (''result'', JObj [(''sample'', JStr ''https://cdn/img.jpg'')])]"
  have a: "\<forall>j<Suc 0. in_progress ?w j" by (simp add: run_defs)
  have b: "in_progress ?w 0" by (simp add: run_defs)
  have c: "poll_reads ?w (Suc 0) = Some (?d, JStr ''Ready'')" by (simp add: run_defs)
  have d: "result_sample ?d = Some (JStr ''https://cdn/img.jpg'')" by (simp add: run_defs)
  have e: "download ?w (JStr ''https://cdn/img.jpg'') = Some picture" by (simp add: run_defs)
  have f: "truthy (JStr ''https://cdn/img.jpg'')" by simp
  note t = poller_returns_image_iff [of ?w ?u "[]" picture
      "[] @ poll_events ?u (Suc (Suc 0)) @ [HttpGet (py_str ?w (JStr ''https://cdn/img.jpg''))]" 0 "Suc 0"]
  from t a b c d e f show ?thesis
    by (auto simp: poll_events_def)
qed

text \<open>
  Claim C1 as stated fails: here the first status the poller receives is Ready and it
  carries a result URL, yet the poller returns no image. The download of the URL answers
  404, and \<^verbatim>\<open>img_response.raise_for_status()\<close> (lines 396, 488) raises.
\<close>

theorem poller_fetch_failure_counterexample:
  "poll_reads (test_provider (scripted [] (ready_reply ''https://cdn/gone.jpg'')) serve) 0 =
     Some (JObj [(''status'', JStr ''Ready''), (''result'', JObj [(''sample'', JStr ''https://cdn/gone.jpg'')])],
           JStr ''Ready'')
   \<and> result_sample (JObj [(''status'', JStr ''Ready''), (''result'', JObj [(''sample'', JStr ''https://cdn/gone.jpg'')])]) =
     Some (JStr ''https://cdn/gone.jpg'')
   \<and> truthy (JStr ''https://cdn/gone.jpg'')
   \<and> poll_loop (test_provider (scripted [] (ready_reply ''https://cdn/gone.jpg'')) serve)
        ''https://api/get_result?id=job1'' (0, []) =
      Some (Inl (HTTPError 404),
        [Sleep 1500, HttpGet ''https://api/get_result?id=job1'', HttpGet ''https://cdn/gone.jpg''])"
proof -
  let ?w = "test_provider (scripted [] (ready_reply ''https://cdn/gone.jpg'')) serve"
  have "poll_passes (Suc 0) ?w ''https://api/get_result?id=job1'' (0, []) =
     Inr (Inl (HTTPError 404),
        [Sleep 1500, HttpGet ''https://api/get_result?id=job1'', HttpGet ''https://cdn/gone.jpg''])"
    by (simp add: poll_iteration_def fetch_result_def run_defs Let_def)
  then have "poll_loop ?w ''https://api/get_result?id=job1'' (0, []) =
     Some (Inl (HTTPError 404),
        [Sleep 1500, HttpGet ''https://api/get_result?id=job1'', HttpGet ''https://cdn/gone.jpg''])"
    by (rule poll_loop_passes)
  then show ?thesis by (simp add: run_defs)
qed


subsection \<open>No bound on the number of polls\<close>

lemma poll_iteration_log:
  "prefix (tr @ [Sleep 1500, HttpGet url]) (log_of (poll_iteration w url (k, tr)))"
  by (auto simp: poll_iteration_def fetch_result_def log_of_def Let_def
           split: sum.splits option.splits)

lemma poll_events_Suc: "poll_events url (Suc n) = poll_events url n @ [Sleep 1500, HttpGet url]"
  by (induction n) (simp_all add: poll_events_def)

lemma poll_loop_diverges:
  assumes "\<forall>j. in_progress w j"
  shows "poll_loop w url (0, tr) = None"
proof (cases "poll_loop w url (0, tr)")
  case None
  then show ?thesis .
next
  case (Some r)
  then obtain n where "poll_passes n w url (0, tr) = Inr r"
    using poll_loop_returns by blast
  moreover have "poll_passes n w url (0, tr) = Inl (n, tr @ poll_events url n)"
    using poll_passes_in_progress [of n w 0 url tr] assms by simp
  ultimately show ?thesis by simp
qed

lemma poll_loop_skip:
  "(\<forall>j<n. in_progress w (k + j)) \<Longrightarrow>
   poll_loop w url (k, tr) = poll_loop w url (k + n, tr @ poll_events url n)"
proof (induction n arbitrary: k tr)
  case 0
  show ?case by (simp add: poll_events_def)
next
  case (Suc n)
  from Suc.prems have "in_progress w k" by force
  then have step: "poll_iteration w url (k, tr) = Inl (Suc k, tr @ [Sleep 1500, HttpGet url])"
    by (rule poll_iteration_in_progress)
  from Suc.prems have "\<forall>j<n. in_progress w (Suc k + j)" by auto
  then have "poll_loop w url (Suc k, tr @ [Sleep 1500, HttpGet url]) =
      poll_loop w url (Suc k + n, (tr @ [Sleep 1500, HttpGet url]) @ poll_events url n)"
    by (rule Suc.IH)
  moreover have "poll_loop w url (k, tr) = poll_loop w url (Suc k, tr @ [Sleep 1500, HttpGet url])"
    by (subst poll_loop.simps) (simp add: step)
  ultimately show ?case by (simp add: poll_events_def)
qed

lemma poll_passes_log:
  "poll_passes m w url (k, tr) = Inr r \<Longrightarrow> prefix (tr @ [Sleep 1500, HttpGet url]) (snd r)"
proof (induction m arbitrary: k tr)
  case 0
  then show ?case by simp
next
  case (Suc m)
  show ?case
  proof (cases "poll_iteration w url (k, tr)")
    case (Inl st')
    then have st': "st' = (Suc k, tr @ [Sleep 1500, HttpGet url])"
      using poll_iteration_continues by blast
    with Suc.prems Inl
    have "poll_passes m w url (Suc k, tr @ [Sleep 1500, HttpGet url]) = Inr r" by simp
    from Suc.IH [OF this]
    have "prefix ((tr @ [Sleep 1500, HttpGet url]) @ [Sleep 1500, HttpGet url]) (snd r)" .
    then show ?thesis using append_prefixD by blast
  next
    case (Inr r')
    with Suc.prems have "r' = r" by simp
    with Inr poll_iteration_log [of tr url w k] show ?thesis by (simp add: log_of_def)
  qed
qed

text \<open>
  Claim C2. If the first \<open>n\<close> polls all read a status among Queued, Processing, Pending,
  then the poller has not returned after them: \<open>poll_loop\<close> started at \<open>(0, tr)\<close> is the
  loop at its pass \<open>n + 1\<close>, entered with exactly \<open>n\<close> sleep-and-poll pairs logged, so it
  makes poll \<open>n + 1\<close> whatever that poll reads, and whenever it returns its log starts
  with \<open>n + 1\<close> sleep-and-poll pairs. The same is said of the first passes of the loop
  (\<open>poll_passes\<close>). If every poll reads such a status, the poller never returns
  (\<open>poll_loop\<close> is \<open>None\<close>).
\<close>

theorem poll_loop_unbounded:
  assumes "\<forall>j<n. in_progress w j"
  shows "poll_passes n w url (0, tr) = Inl (n, tr @ poll_events url n)
     \<and> prefix (tr @ poll_events url (Suc n)) (log_of (poll_passes (Suc n) w url (0, tr)))
     \<and> poll_loop w url (0, tr) =
         (case poll_iteration w url (n, tr @ poll_events url n) of
            Inl st' \<Rightarrow> poll_loop w url st'
          | Inr r \<Rightarrow> Some r)
     \<and> (\<forall>r. poll_loop w url (0, tr) = Some r \<longrightarrow> prefix (tr @ poll_events url (Suc n)) (snd r))
     \<and> ((\<forall>j. in_progress w j) \<longrightarrow> poll_loop w url (0, tr) = None)"
proof (intro conjI impI allI)
  show n: "poll_passes n w url (0, tr) = Inl (n, tr @ poll_events url n)"
    using poll_passes_in_progress [of n w 0 url tr] assms by simp
  have "poll_passes (Suc n) w url (0, tr) = poll_iteration w url (n, tr @ poll_events url n)"
    by (simp add: poll_passes_Suc_end n del: poll_passes.simps)
  then show "prefix (tr @ poll_events url (Suc n)) (log_of (poll_passes (Suc n) w url (0, tr)))"
    using poll_iteration_log [of "tr @ poll_events url n" url w n]
    by (simp add: poll_events_Suc del: poll_passes.simps)
  have skip: "poll_loop w url (0, tr) = poll_loop w url (n, tr @ poll_events url n)"
    using poll_loop_skip [of n w 0 url tr] assms by simp
  show "poll_loop w url (0, tr) =
         (case poll_iteration w url (n, tr @ poll_events url n) of
            Inl st' \<Rightarrow> poll_loop w url st'
          | Inr r \<Rightarrow> Some r)"
    unfolding skip by (rule poll_loop.simps)
  show "prefix (tr @ poll_events url (Suc n)) (snd r)" if "poll_loop w url (0, tr) = Some r" for r
  proof -
    from that have "poll_loop w url (n, tr @ poll_events url n) = Some r" by (simp add: skip)
    then obtain m where "poll_passes m w url (n, tr @ poll_events url n) = Inr r"
      using poll_loop_returns by blast
    from poll_passes_log [OF this] show ?thesis by (simp add: poll_events_Suc)
  qed
next
  assume "\<forall>j. in_progress w j"
  then show "poll_loop w url (0, tr) = None" by (rule poll_loop_diverges)
qed

text \<open>
  Claim C2 at a provider that answers Queued, Processing and then Error (the poller
  returns after its third poll), and at a provider that answers Pending for ever.
\<close>

theorem poll_loop_unbounded_witness:
  "poll_passes (Suc (Suc 0))
      (test_provider (scripted [status_reply ''Queued'', status_reply ''Processing'']
         (status_reply ''Error'')) serve)
      ''https://api/get_result?id=job1'' (0, []) =
     Inl (Suc (Suc 0),
       [Sleep 1500, HttpGet ''https://api/get_result?id=job1'',
        Sleep 1500, HttpGet ''https://api/get_result?id=job1''])
   \<and> poll_loop
      (test_provider (scripted [status_reply ''Queued'', status_reply ''Processing'']
         (status_reply ''Error'')) serve)
      ''https://api/get_result?id=job1'' (0, []) =
     Some (Inl (ValueError ''Generation failed with status: Error. Full response: <repr>''),
       [Sleep 1500, HttpGet ''https://api/get_result?id=job1'',
        Sleep 1500, HttpGet ''https://api/get_result?id=job1'',
        Sleep 1500, HttpGet ''https://api/get_result?id=job1''])
   \<and> poll_loop (test_provider (scripted [] (status_reply ''Pending'')) serve)
        ''https://api/get_result?id=job1'' (0, []) = None"
proof -
  let ?w1 = "test_provider (scripted [status_reply ''Queued'', status_reply ''Processing'']
         (status_reply ''Error'')) serve"
  let ?w2 = "test_provider (scripted [] (status_reply ''Pending'')) serve"
  let ?u = "''https://api/get_result?id=job1''"
  have first: "\<forall>j<Suc (Suc 0). in_progress ?w1 j"
    by (simp add: run_defs All_less_Suc)
  have third: "poll_iteration ?w1 ?u (Suc (Suc 0), [] @ poll_events ?u (Suc (Suc 0))) =
      Inr (Inl (ValueError ''Generation failed with status: Error. Full response: <repr>''),
        [Sleep 1500, HttpGet ?u, Sleep 1500, HttpGet ?u, Sleep 1500, HttpGet ?u])"
    by (simp add: poll_iteration_def failure_message_def run_defs Let_def)
  have all: "\<forall>j. in_progress ?w2 j" by (simp add: run_defs)
  then have none: "\<forall>j<0. in_progress ?w2 j" by blast
  note t1 = poll_loop_unbounded [OF first, of ?u "[]"]
  note t2 = poll_loop_unbounded [OF none, of ?u "[]"]
  have a: "poll_passes (Suc (Suc 0)) ?w1 ?u (0, []) =
      Inl (Suc (Suc 0), [Sleep 1500, HttpGet ?u, Sleep 1500, HttpGet ?u])"
    using t1 [THEN conjunct1] by (simp add: poll_events_def del: poll_passes.simps)
  have b: "poll_loop ?w1 ?u (0, []) =
      Some (Inl (ValueError ''Generation failed with status: Error. Full response: <repr>''),
        [Sleep 1500, HttpGet ?u, Sleep 1500, HttpGet ?u, Sleep 1500, HttpGet ?u])"
    using t1 [THEN conjunct2, THEN conjunct2, THEN conjunct1] unfolding third by simp
  have c: "poll_loop ?w2 ?u (0, []) = None"
    using t2 [THEN conjunct2, THEN conjunct2, THEN conjunct2, THEN conjunct2] all by blast
  from a b c show ?thesis by blast
qed

text \<open>
  Claim C3. After a successful submission, if the polls read Queued, Processing and then
  Ready with a result URL, and the GET of that URL succeeds with bytes that decode to
  \<open>img\<close>, then \<^verbatim>\<open>bfl_generate_image\<close> returns \<open>img\<close>, and after the submission its log is
  exactly three sleep-and-GET pairs on the status endpoint followed by one GET of the
  result URL.
\<close>

theorem poll_queued_processing_ready:
  assumes "poll_reads w 0 = Some (d0, JStr ''Queued'')"
    and "poll_reads w 1 = Some (d1, JStr ''Processing'')"
    and "poll_reads w 2 = Some (d2, JStr ''Ready'')"
    and "result_sample d2 = Some u" and "truthy u"
    and "http_fetch w (py_str w u) = Inr r" and "raise_for_status r = None"
    and "image_open w (content r) = Some img"
    and "bfl_generate_submit w prompt api_key model aspect_ratio seed safety_tolerance
           output_format = (Inr url, tr)"
  shows "bfl_generate_image w prompt api_key model aspect_ratio seed safety_tolerance output_format =
     Some (Inr img,
       tr @ [Sleep 1500, HttpGet url, Sleep 1500, HttpGet url, Sleep 1500, HttpGet url,
             HttpGet (py_str w u)])"
proof -
  have "\<forall>j<2. in_progress w j"
  proof (intro allI impI)
    fix j :: nat assume "j < 2"
    then have "j = 0 \<or> j = 1" by arith
    then show "in_progress w j"
      using assms(1,2) by (auto simp: in_progress_def nonterminal_statuses_def)
  qed
  moreover have "download w u = Some img"
    using assms(6-8) by (simp add: download_def)
  ultimately have "poll_loop w url (0, tr) =
      Some (Inr img, tr @ poll_events url (Suc 2) @ [HttpGet (py_str w u)])"
    using assms(3-5) by (intro poll_loop_image_after)
  moreover have "poll_events url (Suc 2) =
      [Sleep 1500, HttpGet url, Sleep 1500, HttpGet url, Sleep 1500, HttpGet url]"
    by (simp add: poll_events_def numeral_2_eq_2)
  ultimately show ?thesis
    using assms(9) by (simp add: bfl_generate_image_def)
qed


subsection \<open>Failure statuses\<close>

text \<open>
  Claim C3 on a scripted run of \<^verbatim>\<open>bfl_generate_image\<close>, from the POST on.
\<close>

theorem poll_queued_processing_ready_witness:
  "bfl_generate_image
     (test_provider
        (scripted [status_reply ''Queued'', status_reply ''Processing'']
           (ready_reply ''https://cdn/img.jpg'')) serve)
     ''a red fox'' None ''flux-pro-1.1'' ''1:1'' None 6 ''jpeg'' =
   Some (Inr picture,
     [HttpPost ''https://api.us1.bfl.ai/v1/flux-pro-1.1''
        (JObj [(''prompt'', JStr ''a red fox''), (''aspect_ratio'', JStr ''1:1''),
               (''output_format'', JStr ''jpeg''), (''safety_tolerance'', JNum 6)]),
      Print ''Request submitted. Waiting for generation to complete...'',
      Sleep 1500, HttpGet ''https://api.us1.bfl.ai/v1/get_result?id=job1'',
      Sleep 1500, HttpGet ''https://api.us1.bfl.ai/v1/get_result?id=job1'',
      Sleep 1500, HttpGet ''https://api.us1.bfl.ai/v1/get_result?id=job1'',
      HttpGet ''https://cdn/img.jpg''])"
proof -
  let ?w = "test_provider
        (scripted [status_reply ''Queued'', status_reply ''Processing'']
           (ready_reply ''https://cdn/img.jpg'')) serve"
  let ?r = "\<lparr>status_code = 200, body_text = [], json_body = None, content = ''jpegbytes''\<rparr>"
  have p0: "poll_reads ?w 0 = Some (JObj [(''status'', JStr ''Queued'')], JStr ''Queued'')"
    by (simp add: run_defs)
  have p1: "poll_reads ?w 1 = Some (JObj [(''status'', JStr ''Processing'')], JStr ''Processing'')"
    by (simp add: run_defs)
  have p2: "poll_reads ?w 2 =
      Some (JObj [(''status'', JStr ''Ready''),
                  (''result'', JObj [(''sample'', JStr ''https://cdn/img.jpg'')])], JStr ''Ready'')"
    by (simp add: run_defs)
  have s: "result_sample (JObj [(''status'', JStr ''Ready''),
                  (''result'', JObj [(''sample'', JStr ''https://cdn/img.jpg'')])]) =
      Some (JStr ''https://cdn/img.jpg'')"
    by (simp add: run_defs)
  have t: "truthy (JStr ''https://cdn/img.jpg'')" by simp
  have f: "http_fetch ?w (py_str ?w (JStr ''https://cdn/img.jpg'')) = Inr ?r"
    by (simp add: run_defs)
  have ok: "raise_for_status ?r = None" by (simp add: run_defs)
  have im: "image_open ?w (content ?r) = Some picture" by (simp add: run_defs)
  have sub: "bfl_generate_submit ?w ''a red fox'' None ''flux-pro-1.1'' ''1:1'' None 6 ''jpeg'' =
      (Inr ''https://api.us1.bfl.ai/v1/get_result?id=job1'',
       [HttpPost ''https://api.us1.bfl.ai/v1/flux-pro-1.1''
          (JObj [(''prompt'', JStr ''a red fox''), (''aspect_ratio'', JStr ''1:1''),
                 (''output_format'', JStr ''jpeg''), (''safety_tolerance'', JNum 6)]),
        Print ''Request submitted. Waiting for generation to complete...''])"
    by (simp add: bfl_generate_submit_def submit_job_def load_bfl_api_key_def model_endpoints_def
          seed_field_def request_headers_def run_defs Let_def)
  from poll_queued_processing_ready [OF p0 p1 p2 s t f ok im sub]
  show ?thesis by simp
qed

text \<open>
  Claim C4, as amended. When a poll reads a status \<open>s\<close> outside Ready, Processing,
  Queued, Pending (a missing status is \<^verbatim>\<open>None\<close>), the poller raises \<^verbatim>\<open>ValueError\<close> after
  that poll with the message \<^verbatim>\<open>Generation failed with status: \<close>, \<^verbatim>\<open>str(s)\<close>,
  \<^verbatim>\<open>. Full response: \<close>, \<^verbatim>\<open>str(d)\<close>, where \<open>d\<close> is the parsed payload of the status response
  (what \<^verbatim>\<open>.json()\<close> returned). The message contains the literal status string when the
  status is a string, and Python's rendering of the whole parsed payload.
\<close>

theorem poll_failure_status:
  assumes "poll_reads w k = Some (d, s)"
    and "s \<notin> set [JStr ''Ready'', JStr ''Processing'', JStr ''Queued'', JStr ''Pending'']"
    and "msg = ''Generation failed with status: '' @ py_str w s @
               ''. Full response: '' @ py_str w d"
  shows "poll_loop w url (k, tr) = Some (Inl (ValueError msg), tr @ [Sleep 1500, HttpGet url])
     \<and> sublist (py_str w s) msg
     \<and> (\<forall>x. s = JStr x \<longrightarrow> sublist x msg)
     \<and> sublist (py_str w d) msg"
proof (intro conjI allI impI)
  have m: "msg = failure_message w s d" by (simp add: assms(3) failure_message_def)
  have "poll_iteration w url (k, tr) =
      Inr (Inl (ValueError msg), tr @ [Sleep 1500, HttpGet url])"
    using assms(1,2) by (simp add: poll_iteration_reads nonterminal_statuses_def m)
  then have "poll_passes (Suc 0) w url (k, tr) =
      Inr (Inl (ValueError msg), tr @ [Sleep 1500, HttpGet url])"
    by simp
  then show "poll_loop w url (k, tr) =
      Some (Inl (ValueError msg), tr @ [Sleep 1500, HttpGet url])"
    by (rule poll_loop_passes)
  have "msg = ''Generation failed with status: '' @ py_str w s @ (''. Full response: '' @ py_str w d)"
    by (simp add: assms(3))
  then show st: "sublist (py_str w s) msg"
    unfolding sublist_def by blast
  show "sublist x msg" if "s = JStr x" for x
    using st that by simp
  have "msg = (''Generation failed with status: '' @ py_str w s @ ''. Full response: '') @
      py_str w d @ []"
    by (simp add: assms(3))
  then show "sublist (py_str w d) msg"
    unfolding sublist_def by blast
qed

text \<open>
  The amended C4 at the status \<^verbatim>\<open>"Error"\<close>, with the payload as Python prints it.
\<close>

theorem poll_failure_status_witness:
  "poll_loop error_provider ''https://api/get_result?id=job1'' (0, []) =
     Some (Inl (ValueError
                  ''Generation failed with status: Error. Full response: {'status': 'Error'}''),
           [Sleep 1500, HttpGet ''https://api/get_result?id=job1''])
   \<and> sublist ''Error''
        ''Generation failed with status: Error. Full response: {'status': 'Error'}''
   \<and> sublist ''{'status': 'Error'}''
        ''Generation failed with status: Error. Full response: {'status': 'Error'}''"
proof -
  let ?d = "JObj [(''status'', JStr ''Error'')]"
  have r: "poll_reads error_provider 0 = Some (?d, JStr ''Error'')"
    by (simp add: error_provider_def run_defs)
  have n: "JStr ''Error'' \<notin> set [JStr ''Ready'', JStr ''Processing'', JStr ''Queued'', JStr ''Pending'']"
    by simp
  have m: "''Generation failed with status: Error. Full response: {'status': 'Error'}'' =
      ''Generation failed with status: '' @ py_str error_provider (JStr ''Error'') @
      ''. Full response: '' @ py_str error_provider ?d"
    by (simp add: error_provider_def test_provider_def)
  have p: "py_str error_provider ?d = ''{'status': 'Error'}''"
    by (simp add: error_provider_def test_provider_def)
  from poll_failure_status [OF r n m, of "''https://api/get_result?id=job1''" "[]"]
  show ?thesis unfolding p by simp
qed

text \<open>
  Claim C4 as stated fails: the response body is \<^verbatim>\<open>{"status": "Error"}\<close>, and the message
  raised does not contain it. Lines 386 and 401 (478 and 493) format the dict parsed from
  the body, which Python prints with single quotes, not the body.
\<close>

theorem poll_failure_raw_body_counterexample:
  "status_responses error_provider 0 =
     Inr \<lparr>status_code = 200, body_text = error_body,
          json_body = Some (JObj [(''status'', JStr ''Error'')]), content = error_body\<rparr>
   \<and> poll_loop error_provider ''https://api/get_result?id=job1'' (0, []) =
     Some (Inl (ValueError
                  ''Generation failed with status: Error. Full response: {'status': 'Error'}''),
           [Sleep 1500, HttpGet ''https://api/get_result?id=job1''])
   \<and> \<not> sublist error_body
         ''Generation failed with status: Error. Full response: {'status': 'Error'}''"
proof -
  have "poll_passes (Suc 0) error_provider ''https://api/get_result?id=job1'' (0, []) =
     Inr (Inl (ValueError
                  ''Generation failed with status: Error. Full response: {'status': 'Error'}''),
           [Sleep 1500, HttpGet ''https://api/get_result?id=job1''])"
    by (simp add: poll_iteration_def failure_message_def error_provider_def run_defs Let_def)
  then have "poll_loop error_provider ''https://api/get_result?id=job1'' (0, []) =
     Some (Inl (ValueError
                  ''Generation failed with status: Error. Full response: {'status': 'Error'}''),
           [Sleep 1500, HttpGet ''https://api/get_result?id=job1''])"
    by (rule poll_loop_passes)
  moreover have "\<not> sublist error_body
         ''Generation failed with status: Error. Full response: {'status': 'Error'}''"
    by (simp add: error_body_def sublist_code)
  moreover have "status_responses error_provider 0 =
     Inr \<lparr>status_code = 200, body_text = error_body,
          json_body = Some (JObj [(''status'', JStr ''Error'')]), content = error_body\<rparr>"
    by (simp add: error_provider_def test_provider_def scripted_def)
  ultimately show ?thesis by simp
qed


subsection \<open>Submission without a job identifier; the uploaded image\<close>

lemma submit_job_no_id:
  assumes "http_post w url headers data = Inr r"
    and "raise_for_status r = None" and "json_body r = Some (JObj kvs)"
    and "\<not> truthy (case map_of kvs ''id'' of None \<Rightarrow> JNull | Some v \<Rightarrow> v)"
  shows "submit_job w url headers data tr =
     (Inl (ValueError ''No request ID returned from BFL API''),
      tr @ HttpPost url data #
        (if status_code r \<noteq> 200 then [Print (''Error response: '' @ body_text r)] else []))"
  using assms by (simp add: submit_job_def Let_def)


text \<open>
  Claim C5. With an API key present, if the submission POST is answered without a
  transport or HTTP error by a JSON object whose \<^verbatim>\<open>id\<close> field is missing or falsy (empty
  string, null), then \<^verbatim>\<open>bfl_generate_image\<close> and \<^verbatim>\<open>bfl_edit_image\<close> (whose image encodes,
  so that it reaches the POST) raise \<^verbatim>\<open>ValueError("No request ID returned from BFL API")\<close>,
  the program's wording of "no job identifier returned", and the log up to the raise
  holds no sleep and no GET: no status poll was made.
\<close>

theorem submit_without_job_id:
  assumes "str_or api_key (load_bfl_api_key w) = Some key" and "key \<noteq> []"
    and "\<forall>url headers data. http_post w url headers data = Inr r"
    and "raise_for_status r = None" and "json_body r = Some (JObj kvs)"
    and "\<not> truthy (case map_of kvs ''id'' of None \<Rightarrow> JNull | Some v \<Rightarrow> v)"
    and "\<forall>img. \<exists>bytes. jpeg_encode w img 95 = Inr bytes"
  shows "(\<exists>tr. bfl_generate_image w prompt api_key model aspect_ratio seed safety_tolerance
              output_format =
            Some (Inl (ValueError ''No request ID returned from BFL API''), tr)
          \<and> \<not> list_ex waits_or_polls tr)
     \<and> (\<exists>tr. bfl_edit_image w input_image prompt' api_key model' seed' safety_tolerance'
              output_format' =
            Some (Inl (ValueError ''No request ID returned from BFL API''), tr)
          \<and> \<not> list_ex waits_or_polls tr)"
proof (intro conjI)
  note sub = submit_job_no_id [OF assms(3) [rule_format] assms(4,5,6)]
  show "\<exists>tr. bfl_generate_image w prompt api_key model aspect_ratio seed safety_tolerance
              output_format =
            Some (Inl (ValueError ''No request ID returned from BFL API''), tr)
          \<and> \<not> list_ex waits_or_polls tr"
    using assms(1,2) by (simp add: bfl_generate_image_def bfl_generate_submit_def sub Let_def)
next
  note sub = submit_job_no_id [OF assms(3) [rule_format] assms(4,5,6)]
  obtain b1 where b1: "jpeg_encode w (ensure_rgb input_image) 95 = Inr b1"
    using assms(7) by blast
  obtain b2 where b2: "jpeg_encode w
      (thumbnail w (ensure_rgb input_image) (max_dimension, max_dimension)) 95 = Inr b2"
    using assms(7) by blast
  show "\<exists>tr. bfl_edit_image w input_image prompt' api_key model' seed' safety_tolerance'
              output_format' =
            Some (Inl (ValueError ''No request ID returned from BFL API''), tr)
          \<and> \<not> list_ex waits_or_polls tr"
    using assms(1,2) b1 b2
    by (simp add: bfl_edit_image_def bfl_edit_submit_def sub Let_def)
qed

text \<open>
  Claim C5 at a provider that answers the POST with \<^verbatim>\<open>{"message": "accepted"}\<close>.
\<close>

theorem submit_without_job_id_witness:
  "(\<exists>tr. bfl_generate_image no_id_provider ''a red fox'' None ''flux-pro-1.1'' ''1:1'' None 6
            ''jpeg'' =
          Some (Inl (ValueError ''No request ID returned from BFL API''), tr)
        \<and> \<not> list_ex waits_or_polls tr)
   \<and> (\<exists>tr. bfl_edit_image no_id_provider picture ''make it blue'' None ''flux-kontext-pro'' None 2
            ''jpeg'' =
          Some (Inl (ValueError ''No request ID returned from BFL API''), tr)
        \<and> \<not> list_ex waits_or_polls tr)"
proof -
  let ?r = "\<lparr>status_code = 200, body_text = [], json_body = Some (JObj [(''message'', JStr ''accepted'')]),
             content = []\<rparr>"
  have k: "str_or None (load_bfl_api_key no_id_provider) = Some ''key''"
    by (simp add: no_id_provider_def test_provider_def load_bfl_api_key_def)
  have ne: "''key'' \<noteq> []" by simp
  have p: "\<forall>url headers data. http_post no_id_provider url headers data = Inr ?r"
    by (simp add: no_id_provider_def test_provider_def ok_json_def)
  have ok: "raise_for_status ?r = None" by (simp add: raise_for_status_def)
  have j: "json_body ?r = Some (JObj [(''message'', JStr ''accepted'')])" by simp
  have f: "\<not> truthy (case map_of [(''message'', JStr ''accepted'')] ''id'' of
                      None \<Rightarrow> JNull | Some v \<Rightarrow> v)" by simp
  have e: "\<forall>img. \<exists>bytes. jpeg_encode no_id_provider img 95 = Inr bytes"
    by (simp add: no_id_provider_def test_provider_def)
  show ?thesis by (rule submit_without_job_id [OF k ne p ok j f e])
qed






section \<open>Properties of the commands\<close>

subsection \<open>Variations against the secondary provider; input paths\<close>

lemma process_image_log:
  "snd (process_image h fs p) = (if is_url p then [HttpGet p] else [])"
  by (auto simp: process_image_def Let_def split: sum.splits option.splits)

lemma variations_bfl_run:
  assumes "arg_provider args = ''bfl''"
    and "resolve_input_path fs (Some (arg_input args)) (arg_output_dir args) = Some q"
  shows "variations_command h fs args =
     (Exit 1, fs,
      snd (process_image h fs q) @
        [Print (case fst (process_image h fs q) of
                  Inl e \<Rightarrow> ''Error: '' @ str_of_error h e
                | Inr img \<Rightarrow> ''Error: Variations not supported with BFL provider'')])"
proof (cases "process_image h fs q")
  case (Pair r tr)
  then show ?thesis
    using assms by (cases r) (simp_all add: variations_command_def command_failed_def)
qed

text \<open>
  Claim C6, as amended. With \<^verbatim>\<open>--provider bfl\<close>, \<^verbatim>\<open>variations_command\<close> always exits with
  code 1, writes no file and never calls a provider. It loads the input image first
  (lines 640-641): when the image loads it prints the unsupported-operation message,
  otherwise it prints the load error; it makes no network call when the resolved input
  is a local path, and exactly one GET, the download of the input, when the resolved
  input is an http(s) URL.
\<close>

theorem variations_bfl_exits:
  assumes "arg_provider args = ''bfl''"
    and "resolve_input_path fs (Some (arg_input args)) (arg_output_dir args) = Some q"
  shows "fst (variations_command h fs args) = Exit 1
     \<and> fst (snd (variations_command h fs args)) = fs
     \<and> snd (snd (variations_command h fs args)) =
         (if is_url q then [HttpGet q] else []) @
         [Print (case fst (process_image h fs q) of
                   Inl e \<Rightarrow> ''Error: '' @ str_of_error h e
                 | Inr img \<Rightarrow> ''Error: Variations not supported with BFL provider'')]
     \<and> \<not> list_ex provider_call (snd (snd (variations_command h fs args)))
     \<and> (\<not> is_url q \<longrightarrow> \<not> list_ex network_call (snd (snd (variations_command h fs args))))"
  unfolding variations_bfl_run [OF assms] process_image_log by simp

text \<open>
  The amended C6 at an existing local input.
\<close>

theorem variations_bfl_exits_witness:
  "fst (variations_command test_host test_files (test_args\<lparr>arg_provider := ''bfl''\<rparr>)) = Exit 1
   \<and> fst (snd (variations_command test_host test_files (test_args\<lparr>arg_provider := ''bfl''\<rparr>))) =
       test_files
   \<and> snd (snd (variations_command test_host test_files (test_args\<lparr>arg_provider := ''bfl''\<rparr>))) =
       [Print ''Error: Variations not supported with BFL provider'']
   \<and> \<not> list_ex network_call
         (snd (snd (variations_command test_host test_files (test_args\<lparr>arg_provider := ''bfl''\<rparr>))))"
proof -
  let ?args = "test_args\<lparr>arg_provider := ''bfl''\<rparr>"
  have p: "arg_provider ?args = ''bfl''" by simp
  have r: "resolve_input_path test_files (Some (arg_input ?args)) (arg_output_dir ?args) =
      Some ''/work/in.png''"
    by (simp add: resolve_input_path_def test_args_def is_url_def isabs_def)
  have u: "\<not> is_url ''/work/in.png''" by (simp add: is_url_def)
  have i: "fst (process_image test_host test_files ''/work/in.png'') = Inr picture"
    by (simp add: process_image_def is_url_def test_files_def test_host_def)
  from variations_bfl_exits [OF p r, of test_host] u i
  show ?thesis by simp
qed

text \<open>
  Claim C6 as stated fails for two inputs. With an http(s) URL as input the image is
  downloaded before the provider is looked at, so a network call precedes the exit;
  with an input file that does not exist the message printed is the load error, not
  the unsupported-operation message.
\<close>

theorem variations_bfl_download_counterexample:
  "variations_command test_host test_files
     (test_args\<lparr>arg_input := ''https://cdn/img.jpg'', arg_provider := ''bfl''\<rparr>) =
     (Exit 1, test_files,
      [HttpGet ''https://cdn/img.jpg'', Print ''Error: Variations not supported with BFL provider''])
   \<and> variations_command test_host test_files
     (test_args\<lparr>arg_input := ''/work/absent.png'', arg_provider := ''bfl''\<rparr>) =
     (Exit 1, test_files, [Print ''Error: Image file not found: /work/absent.png''])"
  by (simp add: variations_command_def resolve_input_path_def process_image_def is_url_def
        isabs_def test_args_def test_host_def test_files_def serve_def raise_for_status_def
        command_failed_def str_of_error_def)

text \<open>
  Claim C9. \<^verbatim>\<open>resolve_input_path\<close> returns \<^verbatim>\<open>None\<close>, a URL (a string that starts with
  \<^verbatim>\<open>http://\<close> or \<^verbatim>\<open>https://\<close>) and an absolute path unchanged. For a relative path and a
  base directory \<open>b\<close>, it returns the joined path when that path exists and the
  original path otherwise (for the empty \<open>b\<close> the joined path is the original one);
  without a base directory it returns the original path.
\<close>

theorem resolve_input_path_cases:
  "resolve_input_path fs None base_dir = None
   \<and> (is_url p \<longrightarrow> resolve_input_path fs (Some p) base_dir = Some p)
   \<and> (isabs p \<longrightarrow> resolve_input_path fs (Some p) base_dir = Some p)
   \<and> (\<not> is_url p \<and> \<not> isabs p \<longrightarrow>
        resolve_input_path fs (Some p) (Some b) =
          Some (if path_join b p \<in> fs then path_join b p else p))
   \<and> (\<not> is_url p \<and> \<not> isabs p \<longrightarrow> resolve_input_path fs (Some p) None = Some p)"
  by (auto simp: resolve_input_path_def Let_def path_join_def isabs_def)

text \<open>
  Claim C9 on a file system that holds \<^verbatim>\<open>/work/in.png\<close>.
\<close>

theorem resolve_input_path_cases_witness:
  "resolve_input_path {''/work/in.png''} None (Some ''/work'') = None
   \<and> resolve_input_path {''/work/in.png''} (Some ''https://cdn/img.jpg'') (Some ''/work'') =
       Some ''https://cdn/img.jpg''
   \<and> resolve_input_path {''/work/in.png''} (Some ''/abs/in.png'') (Some ''/work'') =
       Some ''/abs/in.png''
   \<and> resolve_input_path {''/work/in.png''} (Some ''in.png'') (Some ''/work'') =
       Some ''/work/in.png''
   \<and> resolve_input_path {''/work/in.png''} (Some ''other.png'') (Some ''/work'') =
       Some ''other.png''
   \<and> resolve_input_path {''/work/in.png''} (Some ''in.png'') None = Some ''in.png''"
proof -
  have u: "is_url ''https://cdn/img.jpg''" by (simp add: is_url_def)
  have a: "isabs ''/abs/in.png''" by (simp add: isabs_def)
  have r1: "\<not> is_url ''in.png'' \<and> \<not> isabs ''in.png''" by (simp add: is_url_def isabs_def)
  have r2: "\<not> is_url ''other.png'' \<and> \<not> isabs ''other.png''" by (simp add: is_url_def isabs_def)
  have j1: "path_join ''/work'' ''in.png'' = ''/work/in.png''" by (simp add: path_join_def suffix_to_prefix)
  have j2: "path_join ''/work'' ''other.png'' = ''/work/other.png''" by (simp add: path_join_def suffix_to_prefix)
  from resolve_input_path_cases [of "{''/work/in.png''}" "Some ''/work''" "''https://cdn/img.jpg''" "''/work''"]
    resolve_input_path_cases [of "{''/work/in.png''}" "Some ''/work''" "''/abs/in.png''" "''/work''"]
    resolve_input_path_cases [of "{''/work/in.png''}" "Some ''/work''" "''in.png''" "''/work''"]
    resolve_input_path_cases [of "{''/work/in.png''}" "Some ''/work''" "''other.png''" "''/work''"]
    u a r1 r2
  show ?thesis by (simp add: j1 j2)
qed


subsection \<open>Numbered output files\<close>

lemma base_name_extension:
  assumes "CHR ''.'' \<notin> set ext"
  shows "base_name (b @ ''.'' @ ext) = b \<and> extension (b @ ''.'' @ ext) = ext"
proof -
  have r: "rev (b @ ''.'' @ ext) = rev ext @ CHR ''.'' # rev b" by simp
  have all: "\<And>c. c \<in> set (rev ext) \<Longrightarrow> c \<noteq> CHR ''.''" using assms by auto
  have t: "takeWhile (\<lambda>c. c \<noteq> CHR ''.'') (rev ext @ CHR ''.'' # rev b) = rev ext"
    using takeWhile_append2 [of "rev ext" "\<lambda>c. c \<noteq> CHR ''.''" "CHR ''.'' # rev b"] all
    by simp
  have d: "dropWhile (\<lambda>c. c \<noteq> CHR ''.'') (rev ext @ CHR ''.'' # rev b) = CHR ''.'' # rev b"
    using dropWhile_append2 [of "rev ext" "\<lambda>c. c \<noteq> CHR ''.''" "CHR ''.'' # rev b"] all
    by simp
  show ?thesis
    unfolding base_name_def extension_def r t d by simp
qed

lemma save_numbered_all:
  assumes "\<forall>img p. save_as h img p fmt = None"
  shows "save_numbered h base ext fmt i imgs fs tr =
     (None,
      fs \<union> (\<lambda>j. base @ ''_'' @ show_nat (Suc (i + j)) @ ''.'' @ ext) ` {..<length imgs},
      tr @ concat (map (\<lambda>j. [SaveImage (imgs ! j) (base @ ''_'' @ show_nat (Suc (i + j)) @ ''.'' @ ext) fmt,
                              Print (''Image saved to '' @ base @ ''_'' @ show_nat (Suc (i + j)) @ ''.'' @ ext)])
                     [0..<length imgs]))"
proof (induction imgs arbitrary: i fs tr)
  case Nil
  show ?case by simp
next
  case (Cons img imgs)
  have s: "save_image h img (base @ ''_'' @ show_nat (i + 1) @ ''.'' @ ext) fmt fs tr =
      (None, insert (base @ ''_'' @ show_nat (i + 1) @ ''.'' @ ext) fs,
       tr @ [SaveImage img (base @ ''_'' @ show_nat (i + 1) @ ''.'' @ ext) fmt,
             Print (''Image saved to '' @ base @ ''_'' @ show_nat (i + 1) @ ''.'' @ ext)])"
    using assms by (simp add: save_image_def)
  have set_eq: "insert (base @ ''_'' @ show_nat (Suc i) @ ''.'' @ ext) fs \<union>
      (\<lambda>j. base @ ''_'' @ show_nat (Suc (Suc i + j)) @ ''.'' @ ext) ` {..<length imgs} =
      fs \<union> (\<lambda>j. base @ ''_'' @ show_nat (Suc (i + j)) @ ''.'' @ ext) ` {..<Suc (length imgs)}"
    (is "?L = ?R")
  proof -
    have "{..<Suc (length imgs)} = insert 0 (Suc ` {..<length imgs})"
      by (auto simp: lessThan_Suc_eq_insert_0)
    then show ?thesis by (auto simp: image_image)
  qed
  have map_eq: "map (\<lambda>j. [SaveImage ((img # imgs) ! j) (base @ ''_'' @ show_nat (Suc (i + j)) @ ''.'' @ ext) fmt,
                              Print (''Image saved to '' @ base @ ''_'' @ show_nat (Suc (i + j)) @ ''.'' @ ext)])
                     [0..<Suc (length imgs)] =
      [SaveImage img (base @ ''_'' @ show_nat (Suc i) @ ''.'' @ ext) fmt,
       Print (''Image saved to '' @ base @ ''_'' @ show_nat (Suc i) @ ''.'' @ ext)] #
      map (\<lambda>j. [SaveImage (imgs ! j) (base @ ''_'' @ show_nat (Suc (Suc i + j)) @ ''.'' @ ext) fmt,
                              Print (''Image saved to '' @ base @ ''_'' @ show_nat (Suc (Suc i + j)) @ ''.'' @ ext)])
                     [0..<length imgs]"
  proof -
    have "[0..<Suc (length imgs)] = 0 # map Suc [0..<length imgs]"
      by (simp add: upt_conv_Cons map_Suc_upt del: upt_Suc)
    then show ?thesis by (simp add: comp_def del: upt_Suc)
  qed
  show ?case
    using Cons.IH [of "Suc i" "insert (base @ ''_'' @ show_nat (Suc i) @ ''.'' @ ext) fs"
        "tr @ [SaveImage img (base @ ''_'' @ show_nat (Suc i) @ ''.'' @ ext) fmt,
             Print (''Image saved to '' @ base @ ''_'' @ show_nat (Suc i) @ ''.'' @ ext)]"] s
    unfolding length_Cons map_eq set_eq [symmetric]
    by simp
qed

text \<open>
  Claim C8. When the variations subcommand runs against the primary provider with
  \<^verbatim>\<open>--n\<close> other than 1, the input loads, the provider returns the images \<open>imgs\<close> and
  every save succeeds, then for an output path \<open>b.ext\<close> (\<open>ext\<close> the part after the last
  dot) the images are saved, in the order returned, to \<open>b_1.ext\<close>, \<open>b_2.ext\<close>, ...: image
  \<open>j\<close> (counted from 0) goes to \<open>b_(j+1).ext\<close>, and these are the files added.
\<close>

theorem variations_numbered_files:
  assumes "arg_provider args \<noteq> ''bfl''" and "arg_n args \<noteq> 1"
    and "resolve_input_path fs (Some (arg_input args)) (arg_output_dir args) = Some q"
    and "process_image h fs q = (Inr input_image, tr)"
    and "create_variations h fs input_image (arg_api_key args) (arg_api_base args) (arg_n args)
           (arg_size args) = (Inr (Many imgs), fs1, tr1)"
    and "\<forall>img p. save_as h img p (upper (arg_output_format args)) = None"
    and "resolve_output_path (arg_output args) (arg_output_dir args) = b @ ''.'' @ ext"
    and "CHR ''.'' \<notin> set ext"
  shows "variations_command h fs args =
     (Returned,
      fs1 \<union> (\<lambda>j. b @ ''_'' @ show_nat (Suc j) @ ''.'' @ ext) ` {..<length imgs},
      tr @ tr1 @
      concat (map (\<lambda>j. [SaveImage (imgs ! j) (b @ ''_'' @ show_nat (Suc j) @ ''.'' @ ext)
                           (upper (arg_output_format args)),
                         Print (''Image saved to '' @ b @ ''_'' @ show_nat (Suc j) @ ''.'' @ ext)])
                [0..<length imgs]))"
proof -
  note be = base_name_extension [OF assms(8), of b]
  show ?thesis
    using assms(1-5)
    by (simp add: variations_command_def assms(7) be [simplified] Let_def
          save_numbered_all [OF assms(6)])
qed


subsection \<open>Runs on the concrete machine; temporary files\<close>

lemma show_nat_small:
  "show_nat (Suc 0) = ''1''" "show_nat (Suc (Suc 0)) = ''2''" "show_nat (Suc (Suc (Suc 0))) = ''3''"
  by (simp_all add: show_nat.simps digit_char_def)

text \<open>
  Claim C8 at \<^verbatim>\<open>--n 3\<close> and the output \<^verbatim>\<open>out.png\<close>: the files are \<^verbatim>\<open>out_1.png\<close>, \<^verbatim>\<open>out_2.png\<close>
  and \<^verbatim>\<open>out_3.png\<close>.
\<close>

theorem variations_numbered_files_witness:
  "variations_command test_host test_files test_args =
     (Returned,
      test_files \<union> {''out_1.png'', ''out_2.png'', ''out_3.png''},
      [ApiCall ''images.create_variation'',
       SaveImage picture ''out_1.png'' ''PNG'', Print ''Image saved to out_1.png'',
       SaveImage picture ''out_2.png'' ''PNG'', Print ''Image saved to out_2.png'',
       SaveImage picture ''out_3.png'' ''PNG'', Print ''Image saved to out_3.png''])"
proof -
  have p: "arg_provider test_args \<noteq> ''bfl''" by (simp add: test_args_def)
  have n: "arg_n test_args \<noteq> 1" by (simp add: test_args_def)
  have r: "resolve_input_path test_files (Some (arg_input test_args)) (arg_output_dir test_args) =
      Some ''/work/in.png''"
    by (simp add: resolve_input_path_def test_args_def is_url_def isabs_def)
  have i: "process_image test_host test_files ''/work/in.png'' = (Inr picture, [])"
    by (simp add: process_image_def is_url_def test_files_def test_host_def)
  have d: "decode_image_data test_host answer = Inr picture"
    by (simp add: decode_image_data_def answer_def test_host_def)
  have c: "create_variations test_host test_files picture (arg_api_key test_args)
      (arg_api_base test_args) (arg_n test_args) (arg_size test_args) =
      (Inr (Many [picture, picture, picture]), test_files, [ApiCall ''images.create_variation''])"
  proof -
    have v: "variation_request test_host ''/tmp/input_0f8fad5b.png'' 3
        ([(''n'', JNum 3)] @ optional_param ''size'' ''1024x1024'') =
        Inr (Many [picture, picture, picture])"
      by (simp add: variation_request_def test_host_def numeral_3_eq_3 d [unfolded test_host_def])
    have rm: "remove_file ''/tmp/input_0f8fad5b.png'' (insert ''/tmp/input_0f8fad5b.png'' test_files) =
        Inr test_files"
      by (simp add: remove_file_def test_files_def)
    have j: "path_join (tempdir test_host) (''input_'' @ uuid4 test_host @ ''.png'') =
        ''/tmp/input_0f8fad5b.png''"
      by (simp add: path_join_def test_host_def suffix_to_prefix)
    have k: "new_client test_host (openai_key_env test_host) (client_base None) = None"
      by (simp add: test_host_def)
    have s: "save_png test_host picture = None"
      by (simp add: test_host_def picture_def)
    show ?thesis
      unfolding create_variations_def
      by (simp add: test_args_def k j s Let_def v rm del: append.simps)
  qed
  have s: "\<forall>img p. save_as test_host img p (upper (arg_output_format test_args)) = None"
    by (simp add: test_host_def)
  have o: "resolve_output_path (arg_output test_args) (arg_output_dir test_args) =
      ''out'' @ ''.'' @ ''png''"
    by (simp add: resolve_output_path_def test_args_def)
  have e: "CHR ''.'' \<notin> set ''png''" by simp
  have u: "upper (arg_output_format test_args) = ''PNG''"
    by (simp add: upper_def upper_char_def test_args_def)
  from variations_numbered_files [OF p n r i c s o e]
  show ?thesis
    by (auto simp: u show_nat_small lessThan_Suc)
qed

text \<open>
  Claim C7 does not hold of \<^verbatim>\<open>edit_image\<close>: the mask is saved (line 157) after the
  temporary input file has been written (line 141) and before the \<^verbatim>\<open>try\<close> block whose
  \<^verbatim>\<open>finally\<close> removes the files (line 160). With a mask that cannot be written as PNG
  (here a CMYK image) the call raises and the temporary input file stays behind.
\<close>

theorem edit_image_mask_leak:
  "''/tmp/input_0f8fad5b.png'' \<notin> test_files
   \<and> edit_image test_host test_files picture ''add a hat'' (Some cmyk_mask) None None
        ''auto'' ''auto'' =
      (Inl (OSError ''cannot write mode CMYK as PNG''),
       insert ''/tmp/input_0f8fad5b.png'' test_files, [])"
  by (simp add: edit_image_def test_host_def test_files_def picture_def cmyk_mask_def
        client_base_def path_join_def suffix_to_prefix Let_def)

lemma temp_paths_differ:
  "path_join d (''input_'' @ u @ ''.png'') \<noteq> path_join d (''mask_'' @ u @ ''.png'')"
  by (simp add: path_join_def)

lemma create_variations_removes_temp:
  assumes "path_join (tempdir h) (''input_'' @ uuid4 h @ ''.png'') \<notin> fs"
  shows "fst (snd (create_variations h fs input_image api_key api_base n size_arg)) = fs"
  using assms
  by (simp add: create_variations_def remove_file_def Let_def split: option.splits)

lemma edit_image_removes_temp:
  assumes "path_join (tempdir h) (''input_'' @ uuid4 h @ ''.png'') \<notin> fs"
    and "path_join (tempdir h) (''mask_'' @ uuid4 h @ ''.png'') \<notin> fs"
    and "\<forall>m. mask_image = Some m \<longrightarrow> save_png h m = None"
  shows "fst (snd (edit_image h fs input_image prompt mask_image api_key api_base quality
                     size_arg)) = fs"
  using assms temp_paths_differ [of "tempdir h" "uuid4 h"]
  by (auto simp: edit_image_def edit_cleanup_def remove_file_def Let_def split: option.splits)

end
